theory Spec2Isabelle
  imports Complex_Main "HOL-Library.Multiset"
begin

section \<open>Python values used by \<open>main.py\<close>\<close>

text \<open>
  Exceptions are values. \<open>NotFound\<close> is a subclass of \<open>GoogleCloudError\<close> in
  \<open>google.cloud.exceptions\<close>; every other subclass of \<open>GoogleCloudError\<close> (Forbidden,
  ServiceUnavailable, ...) is \<open>GoogleCloudError\<close> here, and an exception outside that class
  is \<open>OtherException\<close>.
\<close>

datatype error =
    IndexError
  | KeyError string
  | NotFound string
  | GoogleCloudError string
  | OtherException string

text \<open>\<open>except NotFound\<close> and \<open>except GoogleCloudError\<close> match by class.\<close>

fun is_NotFound :: "error \<Rightarrow> bool" where
  "is_NotFound (NotFound m) = True"
| "is_NotFound e = False"

fun is_GoogleCloudError :: "error \<Rightarrow> bool" where
  "is_GoogleCloudError (NotFound m) = True"
| "is_GoogleCloudError (GoogleCloudError m) = True"
| "is_GoogleCloudError e = False"

text \<open>
  \<open>xs[i]\<close> on a Python sequence: a negative index counts from the end, an index out of
  range raises \<open>IndexError\<close>.
\<close>

definition py_index :: "'a list \<Rightarrow> int \<Rightarrow> error + 'a" where
  "py_index xs i =
     (let k = (if i < 0 then i + int (length xs) else i)
      in if k < 0 \<or> int (length xs) \<le> k then Inl IndexError else Inr (xs ! nat k))"

text \<open>\<open>d[key]\<close> on a dict (kept as an association list): a missing key raises \<open>KeyError\<close>.\<close>

definition py_getitem :: "(string \<times> 'v) list \<Rightarrow> string \<Rightarrow> error + 'v" where
  "py_getitem d k = (case map_of d k of None \<Rightarrow> Inl (KeyError k) | Some v \<Rightarrow> Inr v)"

text \<open>
  \<open>s.split(c)\<close> for a separator of one character: the pieces between the occurrences of
  \<open>c\<close>; never the empty list.
\<close>

fun split_char :: "char \<Rightarrow> string \<Rightarrow> string list" where
  "split_char c [] = [[]]"
| "split_char c (x # xs) =
     (if x = c then [] # split_char c xs
      else (case split_char c xs of
              [] \<Rightarrow> [[x]]
            | p # ps \<Rightarrow> (x # p) # ps))"

text \<open>
  Strings are lists of 8-bit characters, read as code points. \<open>str.strip()\<close> removes the
  characters for which \<open>str.isspace\<close> holds from both ends; in the 8-bit range these are
  the code points 9 to 13, 28 to 32, 133 and 160.
\<close>

definition py_isspace :: "char \<Rightarrow> bool" where
  "py_isspace c =
     (let n = (of_char c :: nat)
      in (9 \<le> n \<and> n \<le> 13) \<or> (28 \<le> n \<and> n \<le> 32) \<or> n = 133 \<or> n = 160)"

definition strip :: "string \<Rightarrow> string" where
  "strip s = rev (dropWhile py_isspace (rev (dropWhile py_isspace s)))"

text \<open>\<open>sep.join(xs)\<close>.\<close>

fun join :: "string \<Rightarrow> string list \<Rightarrow> string" where
  "join sep [] = []"
| "join sep [x] = x"
| "join sep (x # y # ys) = x @ sep @ join sep (y # ys)"

text \<open>\<open>str(n)\<close> for a non-negative integer, as \<open>len(...)\<close> is.\<close>

fun str_nat :: "nat \<Rightarrow> string" where
  "str_nat n =
     (if n < 10 then [''0123456789'' ! n]
      else str_nat (n div 10) @ [''0123456789'' ! (n mod 10)])"

declare str_nat.simps [simp del]

text \<open>
  \<open>s.center(width, fill)\<close>: CPython pads \<open>marg div 2 + (marg AND width AND 1)\<close> characters
  on the left and the rest on the right, and returns \<open>s\<close> when it is already wide enough.
\<close>

definition center :: "nat \<Rightarrow> char \<Rightarrow> string \<Rightarrow> string" where
  "center width fill s =
     (if width \<le> length s then s
      else let marg = width - length s;
               left = marg div 2 + (if odd marg \<and> odd width then 1 else 0)
           in replicate left fill @ s @ replicate (marg - left) fill)"

section \<open>Constants and the annotation request\<close>

definition OUTPUT_BUCKET :: string where
  "OUTPUT_BUCKET = ''gs://outputbucket-cloud9''"

definition DATASET_ID :: string where
  "DATASET_ID = ''video_analytics''"

definition TABLE_ID_LABELS :: string where
  "TABLE_ID_LABELS = ''annotation_labels''"

definition TABLE_ID_TRANSCRIPT :: string where
  "TABLE_ID_TRANSCRIPT = ''annotation_transcripts''"

datatype feature =
    OBJECT_TRACKING
  | LABEL_DETECTION
  | SHOT_CHANGE_DETECTION
  | SPEECH_TRANSCRIPTION
  | LOGO_RECOGNITION
  | EXPLICIT_CONTENT_DETECTION
  | TEXT_DETECTION
  | FACE_DETECTION
  | PERSON_DETECTION

definition features :: "feature list" where
  "features =
     [OBJECT_TRACKING, LABEL_DETECTION, SHOT_CHANGE_DETECTION, SPEECH_TRANSCRIPTION,
      LOGO_RECOGNITION, EXPLICIT_CONTENT_DETECTION, TEXT_DETECTION, FACE_DETECTION,
      PERSON_DETECTION]"

record speech_transcription_config =
  language_code :: string
  enable_automatic_punctuation :: bool

record person_detection_config =
  person_include_bounding_boxes :: bool
  person_include_attributes :: bool
  person_include_pose_landmarks :: bool

record face_detection_config =
  face_include_bounding_boxes :: bool
  face_include_attributes :: bool

record video_context_rec =
  speech_transcription_config :: speech_transcription_config
  person_detection_config :: person_detection_config
  face_detection_config :: face_detection_config

definition speech_config :: speech_transcription_config where
  "speech_config = \<lparr>language_code = ''en-US'', enable_automatic_punctuation = True\<rparr>"

definition person_config :: person_detection_config where
  "person_config =
     \<lparr>person_include_bounding_boxes = True, person_include_attributes = False,
      person_include_pose_landmarks = True\<rparr>"

definition face_config :: face_detection_config where
  "face_config = \<lparr>face_include_bounding_boxes = True, face_include_attributes = True\<rparr>"

definition video_context :: video_context_rec where
  "video_context =
     \<lparr>speech_transcription_config = speech_config,
      person_detection_config = person_config,
      face_detection_config = face_config\<rparr>"

record request =
  req_features :: "feature list"
  input_uri :: string
  output_uri :: string
  req_video_context :: video_context_rec

text \<open>The trigger event is a dict from field names to strings.\<close>

type_synonym event = "(string \<times> string) list"

text \<open>
  Lines 53 to 61 of \<open>analyze_video\<close>: the request built from the event. \<open>split(".")[0]\<close>
  is the first piece of the object name.
\<close>

definition build_request :: "event \<Rightarrow> error + request" where
  "build_request event =
     (case py_getitem event ''bucket'' of
        Inl e \<Rightarrow> Inl e
      | Inr bucket \<Rightarrow>
     (case py_getitem event ''name'' of
        Inl e \<Rightarrow> Inl e
      | Inr name \<Rightarrow>
     (let input_uri = ''gs://'' @ bucket @ ''/'' @ name in
      case py_index (split_char (CHR ''.'') name) 0 of
        Inl e \<Rightarrow> Inl e
      | Inr file_stem \<Rightarrow>
          Inr \<lparr>req_features = features,
               input_uri = input_uri,
               output_uri = OUTPUT_BUCKET @ ''/'' @ file_stem @ ''.json'',
               req_video_context = video_context\<rparr>)))"

section \<open>Annotation results\<close>

text \<open>
  The fields of the annotation results that the program reads. A time offset is kept as
  the number of seconds that \<open>total_seconds()\<close> returns, and a confidence as the real
  number the float stands for: comparisons of finite floats agree with those of the reals.
\<close>

record entity =
  description :: string

record video_segment =
  start_time_offset :: real
  end_time_offset :: real

record label_segment =
  segment :: video_segment
  confidence :: real

record label_annotation =
  entity :: entity
  category_entities :: "entity list"
  segments :: "label_segment list"

record speech_recognition_alternative =
  transcript :: string
  alt_confidence :: real

record speech_transcription =
  alternatives :: "speech_recognition_alternative list"

record video_annotation_results =
  segment_label_annotations :: "label_annotation list"
  speech_transcriptions :: "speech_transcription list"

section \<open>The outside world\<close>

text \<open>
  A row handed to \<open>insert_rows_json\<close> is a dict of JSON values; the store answers an
  append with a list of row errors (row index and message).
\<close>

datatype json_value = JString string | JFloat real

type_synonym row = "(string \<times> json_value) list"

type_synonym row_error = "nat \<times> string"

datatype schema_field = SchemaField string string string

record table_ref =
  dataset_id :: string
  table_id :: string

text \<open>
  What the program does to the outside, in order: a line printed, or a call of one of the
  two services.
\<close>

datatype effect =
    Stdout string
  | AnnotateVideo request
  | BigqueryClient
  | GetTable table_ref
  | CreateTable table_ref "schema_field list"
  | InsertRowsJson table_ref "row list"

record 's world =
  trace :: "effect list"
  store :: 's

text \<open>
  The libraries the program calls, as parameters. \<open>annotate_video\<close> stands for lines 63
  to 66 (client, submission and the blocking wait for the result); \<open>create_table\<close>
  returns the \<open>table_id\<close> of the table created. The store calls act on a store state
  \<open>'s\<close>. The last five fields are Python's formatting of floats (\<open>4.0%\<close> and
  \<open>7.3f\<close>), of the event dict, of the list of row errors and of an exception.
\<close>

record 's env =
  annotate_video :: "request \<Rightarrow> error + video_annotation_results list"
  bigquery_Client :: "error + unit"
  get_table :: "table_ref \<Rightarrow> 's \<Rightarrow> (error + unit) \<times> 's"
  create_table :: "table_ref \<Rightarrow> schema_field list \<Rightarrow> 's \<Rightarrow> (error + string) \<times> 's"
  insert_rows_json :: "table_ref \<Rightarrow> row list \<Rightarrow> 's \<Rightarrow> (error + row_error list) \<times> 's"
  fmt_percent :: "real \<Rightarrow> string"
  fmt_seconds :: "real \<Rightarrow> string"
  repr_event :: "event \<Rightarrow> string"
  repr_errors :: "row_error list \<Rightarrow> string"
  str_error :: "error \<Rightarrow> string"

definition py_print :: "string \<Rightarrow> 's world \<Rightarrow> 's world" where
  "py_print line w = w\<lparr>trace := trace w @ [Stdout line]\<rparr>"

definition call_annotate_video ::
  "'s env \<Rightarrow> request \<Rightarrow> 's world \<Rightarrow> (error + video_annotation_results list) \<times> 's world" where
  "call_annotate_video env req w =
     (annotate_video env req, w\<lparr>trace := trace w @ [AnnotateVideo req]\<rparr>)"

definition call_bigquery_Client :: "'s env \<Rightarrow> 's world \<Rightarrow> (error + unit) \<times> 's world" where
  "call_bigquery_Client env w =
     (bigquery_Client env, w\<lparr>trace := trace w @ [BigqueryClient]\<rparr>)"

definition call_get_table ::
  "'s env \<Rightarrow> table_ref \<Rightarrow> 's world \<Rightarrow> (error + unit) \<times> 's world" where
  "call_get_table env tref w =
     (case get_table env tref (store w) of
        (r, s) \<Rightarrow> (r, w\<lparr>trace := trace w @ [GetTable tref], store := s\<rparr>))"

definition call_create_table ::
  "'s env \<Rightarrow> table_ref \<Rightarrow> schema_field list \<Rightarrow> 's world \<Rightarrow> (error + string) \<times> 's world" where
  "call_create_table env tref sch w =
     (case create_table env tref sch (store w) of
        (r, s) \<Rightarrow> (r, w\<lparr>trace := trace w @ [CreateTable tref sch], store := s\<rparr>))"

definition call_insert_rows_json ::
  "'s env \<Rightarrow> table_ref \<Rightarrow> row list \<Rightarrow> 's world \<Rightarrow> (error + row_error list) \<times> 's world" where
  "call_insert_rows_json env tref rows w =
     (case insert_rows_json env tref rows (store w) of
        (r, s) \<Rightarrow> (r, w\<lparr>trace := trace w @ [InsertRowsJson tref rows], store := s\<rparr>))"

section \<open>\<open>analyze_video\<close>\<close>

definition analyze_video ::
  "'s env \<Rightarrow> event \<Rightarrow> 's world \<Rightarrow> (error + video_annotation_results list) \<times> 's world" where
  "analyze_video env event w =
     (let w1 = py_print (repr_event env event) w in
      case build_request event of
        Inl e \<Rightarrow> (Inl e, w1)
      | Inr req \<Rightarrow>
          (let w2 = py_print (''Processing video '' @ [CHR 0x22] @ input_uri req
                               @ [CHR 0x22] @ ''...'') w1
           in call_annotate_video env req w2))"

section \<open>The label report\<close>

text \<open>The sort key \<open>label.segments[0].confidence\<close>.\<close>

definition first_segment_confidence :: "label_annotation \<Rightarrow> error + real" where
  "first_segment_confidence label =
     (case py_index (segments label) 0 of
        Inl e \<Rightarrow> Inl e
      | Inr s \<Rightarrow> Inr (confidence s))"

text \<open>
  \<open>sorted(labels, key=..., reverse=True)\<close>: the key of every item is computed first, in
  order, and an exception there ends the call; CPython then reverses the list, sorts it
  stably by ascending key and reverses the result.
\<close>

fun keyed :: "('a \<Rightarrow> error + 'k) \<Rightarrow> 'a list \<Rightarrow> error + ('k \<times> 'a) list" where
  "keyed key [] = Inr []"
| "keyed key (x # xs) =
     (case key x of
        Inl e \<Rightarrow> Inl e
      | Inr k \<Rightarrow>
          (case keyed key xs of
             Inl e \<Rightarrow> Inl e
           | Inr ks \<Rightarrow> Inr ((k, x) # ks)))"

definition sorted_reverse :: "('a \<Rightarrow> error + 'k::linorder) \<Rightarrow> 'a list \<Rightarrow> error + 'a list" where
  "sorted_reverse key xs =
     (case keyed key xs of
        Inl e \<Rightarrow> Inl e
      | Inr ks \<Rightarrow> Inr (map snd (rev (sort_key fst (rev ks)))))"

definition sorted_by_first_segment_confidence ::
  "label_annotation list \<Rightarrow> error + label_annotation list" where
  "sorted_by_first_segment_confidence labels = sorted_reverse first_segment_confidence labels"

definition category_entities_to_str :: "entity list \<Rightarrow> string" where
  "category_entities_to_str ces =
     (if ces = [] then []
      else '' ('' @ join '', '' (map description ces) @ '')'')"

definition label_line :: "'s env \<Rightarrow> label_annotation \<Rightarrow> string \<Rightarrow> label_segment \<Rightarrow> string" where
  "label_line env label categories sg =
     fmt_percent env (confidence sg) @ '' | ''
       @ fmt_seconds env (start_time_offset (segment sg)) @ '' | ''
       @ fmt_seconds env (end_time_offset (segment sg)) @ '' | ''
       @ description (entity label) @ categories"

text \<open>The inner loop over \<open>label.segments\<close> and the outer loop over the sorted labels.\<close>

fun print_segments ::
  "'s env \<Rightarrow> label_annotation \<Rightarrow> string \<Rightarrow> label_segment list \<Rightarrow> 's world \<Rightarrow> 's world" where
  "print_segments env label categories [] w = w"
| "print_segments env label categories (sg # sgs) w =
     print_segments env label categories sgs (py_print (label_line env label categories sg) w)"

fun print_labels :: "'s env \<Rightarrow> label_annotation list \<Rightarrow> 's world \<Rightarrow> 's world" where
  "print_labels env [] w = w"
| "print_labels env (label # labels) w =
     (let categories = category_entities_to_str (category_entities label)
      in print_labels env labels (print_segments env label categories (segments label) w))"

definition print_video_labels ::
  "'s env \<Rightarrow> video_annotation_results \<Rightarrow> 's world \<Rightarrow> (error + unit) \<times> 's world" where
  "print_video_labels env results w =
     (case sorted_by_first_segment_confidence (segment_label_annotations results) of
        Inl e \<Rightarrow> (Inl e, w)
      | Inr labels \<Rightarrow>
          (let w1 = py_print (center 80 (CHR ''-'')
                                ('' Video labels: '' @ str_nat (length labels) @ '' '')) w
           in (Inr (), print_labels env labels w1)))"

section \<open>The speech report\<close>

definition keep_transcription :: "real \<Rightarrow> speech_transcription \<Rightarrow> error + bool" where
  "keep_transcription min_confidence transcription =
     (case py_index (alternatives transcription) 0 of
        Inl e \<Rightarrow> Inl e
      | Inr a \<Rightarrow> Inr (min_confidence \<le> alt_confidence a))"

text \<open>The list comprehension \<open>[t for t in transcriptions if keep_transcription(t)]\<close>.\<close>

fun keep_transcriptions ::
  "real \<Rightarrow> speech_transcription list \<Rightarrow> error + speech_transcription list" where
  "keep_transcriptions min_confidence [] = Inr []"
| "keep_transcriptions min_confidence (t # ts) =
     (case keep_transcription min_confidence t of
        Inl e \<Rightarrow> Inl e
      | Inr keep \<Rightarrow>
          (case keep_transcriptions min_confidence ts of
             Inl e \<Rightarrow> Inl e
           | Inr kept \<Rightarrow> Inr (if keep then t # kept else kept)))"

definition speech_line :: "'s env \<Rightarrow> speech_recognition_alternative \<Rightarrow> string" where
  "speech_line env first_alternative =
     '' '' @ fmt_percent env (alt_confidence first_alternative) @ '' | ''
       @ strip (transcript first_alternative)"

fun print_transcriptions ::
  "'s env \<Rightarrow> speech_transcription list \<Rightarrow> 's world \<Rightarrow> (error + unit) \<times> 's world" where
  "print_transcriptions env [] w = (Inr (), w)"
| "print_transcriptions env (t # ts) w =
     (case py_index (alternatives t) 0 of
        Inl e \<Rightarrow> (Inl e, w)
      | Inr first_alternative \<Rightarrow>
          print_transcriptions env ts (py_print (speech_line env first_alternative) w))"

definition print_video_speech ::
  "'s env \<Rightarrow> video_annotation_results \<Rightarrow> real \<Rightarrow> 's world \<Rightarrow> (error + unit) \<times> 's world" where
  "print_video_speech env results min_confidence w =
     (case keep_transcriptions min_confidence (speech_transcriptions results) of
        Inl e \<Rightarrow> (Inl e, w)
      | Inr transcriptions \<Rightarrow>
          (let w1 = py_print (center 80 (CHR ''-'')
                                ('' Speech transcriptions: ''
                                   @ str_nat (length transcriptions) @ '' '')) w
           in print_transcriptions env transcriptions w1))"

text \<open>The default of the parameter \<open>min_confidence\<close>.\<close>

definition default_min_confidence :: real where
  "default_min_confidence = 0.8"

section \<open>\<open>create_bigquery_tables\<close>\<close>

definition schema_labels :: "schema_field list" where
  "schema_labels =
     [SchemaField ''file_name'' ''STRING'' ''REQUIRED'',
      SchemaField ''label'' ''STRING'' ''REQUIRED'',
      SchemaField ''confidence'' ''FLOAT'' ''NULLABLE'',
      SchemaField ''start_time'' ''FLOAT'' ''NULLABLE'',
      SchemaField ''end_time'' ''FLOAT'' ''NULLABLE'',
      SchemaField ''file_uri'' ''STRING'' ''REQUIRED'']"

definition schema_transcript :: "schema_field list" where
  "schema_transcript =
     [SchemaField ''file_name'' ''STRING'' ''REQUIRED'',
      SchemaField ''transcript'' ''STRING'' ''REQUIRED'',
      SchemaField ''confidence'' ''FLOAT'' ''NULLABLE'']"

definition table_ref_labels :: table_ref where
  "table_ref_labels = \<lparr>dataset_id = DATASET_ID, table_id = TABLE_ID_LABELS\<rparr>"

definition table_ref_transcript :: table_ref where
  "table_ref_transcript = \<lparr>dataset_id = DATASET_ID, table_id = TABLE_ID_TRANSCRIPT\<rparr>"

text \<open>
  Lines 123 to 129 and 133 to 139, the same block for each table: \<open>get_table\<close> inside a
  \<open>try\<close> whose only handler is \<open>except NotFound\<close>, which creates the table.
\<close>

definition get_or_create_table ::
  "'s env \<Rightarrow> table_ref \<Rightarrow> schema_field list \<Rightarrow> 's world \<Rightarrow> (error + unit) \<times> 's world" where
  "get_or_create_table env tref sch w =
     (case call_get_table env tref w of
        (Inr u, w1) \<Rightarrow>
          (Inr (), py_print (''Table '' @ table_id tref
                              @ '' already exists. Skipping creation.'') w1)
      | (Inl e, w1) \<Rightarrow>
          if is_NotFound e then
            (case call_create_table env tref sch w1 of
               (Inl e2, w2) \<Rightarrow> (Inl e2, w2)
             | (Inr created_id, w2) \<Rightarrow>
                 (Inr (), py_print (''Table '' @ created_id @ '' created.'') w2))
          else (Inl e, w1))"

definition create_bigquery_tables :: "'s env \<Rightarrow> 's world \<Rightarrow> (error + unit) \<times> 's world" where
  "create_bigquery_tables env w =
     (case call_bigquery_Client env w of
        (Inl e, w1) \<Rightarrow> (Inl e, w1)
      | (Inr client, w1) \<Rightarrow>
     (case get_or_create_table env table_ref_labels schema_labels w1 of
        (Inl e, w2) \<Rightarrow> (Inl e, w2)
      | (Inr u, w2) \<Rightarrow> get_or_create_table env table_ref_transcript schema_transcript w2))"

section \<open>\<open>store_results_in_bigquery\<close>\<close>

text \<open>Lines 152 to 164: the rows for the labels table, appended in order.\<close>

definition label_row :: "string \<Rightarrow> string \<Rightarrow> label_annotation \<Rightarrow> label_segment \<Rightarrow> row" where
  "label_row file_name video_uri label_annotation sg =
     (let start_time = start_time_offset (segment sg);
          end_time = end_time_offset (segment sg);
          conf = confidence sg
      in [(''file_name'', JString file_name),
          (''label'', JString (description (entity label_annotation))),
          (''confidence'', JFloat conf),
          (''start_time'', JFloat start_time),
          (''end_time'', JFloat end_time),
          (''file_uri'', JString video_uri)])"

fun label_rows_segments ::
  "string \<Rightarrow> string \<Rightarrow> label_annotation \<Rightarrow> label_segment list \<Rightarrow> row list \<Rightarrow> row list" where
  "label_rows_segments file_name video_uri label_annotation [] rows = rows"
| "label_rows_segments file_name video_uri label_annotation (sg # sgs) rows =
     label_rows_segments file_name video_uri label_annotation sgs
       (rows @ [label_row file_name video_uri label_annotation sg])"

fun label_rows :: "string \<Rightarrow> string \<Rightarrow> label_annotation list \<Rightarrow> row list \<Rightarrow> row list" where
  "label_rows file_name video_uri [] rows = rows"
| "label_rows file_name video_uri (label_annotation # rest) rows =
     label_rows file_name video_uri rest
       (label_rows_segments file_name video_uri label_annotation
          (segments label_annotation) rows)"

text \<open>Lines 167 to 176: the rows for the transcript table.\<close>

definition transcript_row :: "string \<Rightarrow> speech_recognition_alternative \<Rightarrow> row" where
  "transcript_row file_name first_alternative =
     [(''file_name'', JString file_name),
      (''transcript'', JString (transcript first_alternative)),
      (''confidence'', JFloat (alt_confidence first_alternative))]"

fun transcript_rows ::
  "string \<Rightarrow> speech_transcription list \<Rightarrow> row list \<Rightarrow> error + row list" where
  "transcript_rows file_name [] rows = Inr rows"
| "transcript_rows file_name (transcription # rest) rows =
     (case py_index (alternatives transcription) 0 of
        Inl e \<Rightarrow> Inl e
      | Inr first_alternative \<Rightarrow>
          transcript_rows file_name rest (rows @ [transcript_row file_name first_alternative]))"

text \<open>Lines 179 to 193: the body of the \<open>try\<close>, the two appends one after the other.\<close>

definition insert_rows_try ::
  "'s env \<Rightarrow> row list \<Rightarrow> row list \<Rightarrow> 's world \<Rightarrow> (error + unit) \<times> 's world" where
  "insert_rows_try env rows_to_insert_labels rows_to_insert_transcript w =
     (case call_insert_rows_json env table_ref_labels rows_to_insert_labels w of
        (Inl e, w1) \<Rightarrow> (Inl e, w1)
      | (Inr annotation_labels, w1) \<Rightarrow>
     (let w2 = (if annotation_labels = []
                then py_print ''New rows have been added to the 'labels' table.'' w1
                else py_print (''Encountered errors while inserting rows into 'labels' table: ''
                                 @ repr_errors env annotation_labels) w1)
      in case call_insert_rows_json env table_ref_transcript rows_to_insert_transcript w2 of
        (Inl e, w3) \<Rightarrow> (Inl e, w3)
      | (Inr annotation_transcripts, w3) \<Rightarrow>
          (Inr (),
           if annotation_transcripts = []
           then py_print ''New rows have been added to the 'transcript' table.'' w3
           else py_print (''Encountered errors while inserting rows into 'transcript' table: ''
                            @ repr_errors env annotation_transcripts) w3)))"

text \<open>Lines 178 to 195: the \<open>try\<close> with its handler \<open>except GoogleCloudError\<close>.\<close>

definition insert_rows ::
  "'s env \<Rightarrow> row list \<Rightarrow> row list \<Rightarrow> 's world \<Rightarrow> (error + unit) \<times> 's world" where
  "insert_rows env rows_to_insert_labels rows_to_insert_transcript w =
     (case insert_rows_try env rows_to_insert_labels rows_to_insert_transcript w of
        (Inr u, w1) \<Rightarrow> (Inr (), w1)
      | (Inl e, w1) \<Rightarrow>
          if is_GoogleCloudError e
          then (Inr (), py_print (''Error inserting rows into BigQuery: '' @ str_error env e) w1)
          else (Inl e, w1))"

definition store_results_in_bigquery ::
  "'s env \<Rightarrow> string \<Rightarrow> video_annotation_results list \<Rightarrow> 's world \<Rightarrow> (error + unit) \<times> 's world" where
  "store_results_in_bigquery env video_uri results w =
     (case py_index results 0 of
        Inl e \<Rightarrow> (Inl e, w)
      | Inr results_labels \<Rightarrow>
     (case py_index results 1 of
        Inl e \<Rightarrow> (Inl e, w)
      | Inr results_transcript \<Rightarrow>
     (case py_index (split_char (CHR ''/'') video_uri) (- 1) of
        Inl e \<Rightarrow> (Inl e, w)
      | Inr file_name \<Rightarrow>
     (case call_bigquery_Client env w of
        (Inl e, w1) \<Rightarrow> (Inl e, w1)
      | (Inr client, w1) \<Rightarrow>
     (let rows_to_insert_labels =
            label_rows file_name video_uri (segment_label_annotations results_labels) []
      in case transcript_rows file_name (speech_transcriptions results_transcript) [] of
        Inl e \<Rightarrow> (Inl e, w1)
      | Inr rows_to_insert_transcript \<Rightarrow>
          insert_rows env rows_to_insert_labels rows_to_insert_transcript w1)))))"

section \<open>\<open>process_video\<close>\<close>

definition process_video :: "'s env \<Rightarrow> event \<Rightarrow> 's world \<Rightarrow> (error + unit) \<times> 's world" where
  "process_video env event w =
     (case py_getitem event ''bucket'' of
        Inl e \<Rightarrow> (Inl e, w)
      | Inr bucket \<Rightarrow>
     (case py_getitem event ''name'' of
        Inl e \<Rightarrow> (Inl e, w)
      | Inr name \<Rightarrow>
     (let video_uri = ''gs://'' @ bucket @ ''/'' @ name in
      case analyze_video env event w of
        (Inl e, w1) \<Rightarrow> (Inl e, w1)
      | (Inr results, w1) \<Rightarrow>
     (case py_index results 0 of
        Inl e \<Rightarrow> (Inl e, w1)
      | Inr results_labels \<Rightarrow>
     (case print_video_labels env results_labels w1 of
        (Inl e, w2) \<Rightarrow> (Inl e, w2)
      | (Inr u, w2) \<Rightarrow>
     (case py_index results 1 of
        Inl e \<Rightarrow> (Inl e, w2)
      | Inr results_transcript \<Rightarrow>
     (case print_video_speech env results_transcript default_min_confidence w2 of
        (Inl e, w3) \<Rightarrow> (Inl e, w3)
      | (Inr u, w3) \<Rightarrow>
     (case create_bigquery_tables env w3 of
        (Inl e, w4) \<Rightarrow> (Inl e, w4)
      | (Inr u, w4) \<Rightarrow> store_results_in_bigquery env video_uri results w4))))))))"

section \<open>Observations on a trace\<close>

text \<open>The rows handed to \<open>insert_rows_json\<close> for a table, and the tables created.\<close>

fun inserted_rows :: "table_ref \<Rightarrow> effect list \<Rightarrow> row list" where
  "inserted_rows tref [] = []"
| "inserted_rows tref (InsertRowsJson t rows # es) =
     (if t = tref then rows @ inserted_rows tref es else inserted_rows tref es)"
| "inserted_rows tref (e # es) = inserted_rows tref es"

fun append_attempted :: "table_ref \<Rightarrow> effect list \<Rightarrow> bool" where
  "append_attempted tref [] = False"
| "append_attempted tref (InsertRowsJson t rows # es) = (t = tref \<or> append_attempted tref es)"
| "append_attempted tref (e # es) = append_attempted tref es"

fun creates :: "table_ref \<Rightarrow> effect list \<Rightarrow> nat" where
  "creates tref [] = 0"
| "creates tref (CreateTable t sch # es) =
     (if t = tref then Suc (creates tref es) else creates tref es)"
| "creates tref (e # es) = creates tref es"

fun store_calls :: "effect list \<Rightarrow> effect list" where
  "store_calls [] = []"
| "store_calls (Stdout line # es) = store_calls es"
| "store_calls (AnnotateVideo req # es) = store_calls es"
| "store_calls (e # es) = e # store_calls es"

section \<open>A store of tables\<close>

text \<open>
  The store that the idempotence of the provisioning is about: its state is the set of the
  tables that exist; a table that is absent is not found, and \<open>create_table\<close> makes it
  found from then on.
\<close>

definition store_get_table :: "table_ref \<Rightarrow> table_ref set \<Rightarrow> (error + unit) \<times> table_ref set" where
  "store_get_table tref s =
     (if tref \<in> s then (Inr (), s) else (Inl (NotFound (table_id tref)), s))"

definition store_create_table ::
  "table_ref \<Rightarrow> schema_field list \<Rightarrow> table_ref set \<Rightarrow> (error + string) \<times> table_ref set" where
  "store_create_table tref sch s =
     (if tref \<in> s then (Inl (GoogleCloudError ''Conflict''), s)
      else (Inr (table_id tref), insert tref s))"

text \<open>Appends to this store return the row errors \<open>errs\<close>, or raise \<open>exc\<close> when given.\<close>

definition store_insert_rows_json ::
  "(table_ref \<Rightarrow> error option) \<Rightarrow> (table_ref \<Rightarrow> row_error list) \<Rightarrow> table_ref \<Rightarrow> row list
     \<Rightarrow> table_ref set \<Rightarrow> (error + row_error list) \<times> table_ref set" where
  "store_insert_rows_json exc errs tref rows s =
     (case exc tref of
        Some e \<Rightarrow> (Inl e, s)
      | None \<Rightarrow> (Inr (errs tref), s))"

definition sample_env ::
  "(request \<Rightarrow> error + video_annotation_results list) \<Rightarrow> (table_ref \<Rightarrow> error option)
     \<Rightarrow> (table_ref \<Rightarrow> row_error list) \<Rightarrow> (table_ref set) env" where
  "sample_env annotate exc errs =
     \<lparr>annotate_video = annotate,
      bigquery_Client = Inr (),
      get_table = store_get_table,
      create_table = store_create_table,
      insert_rows_json = store_insert_rows_json exc errs,
      fmt_percent = (\<lambda>r. ''pct''),
      fmt_seconds = (\<lambda>r. ''sec''),
      repr_event = (\<lambda>ev. ''event''),
      repr_errors = (\<lambda>es. ''errors''),
      str_error = (\<lambda>e. ''exception'')\<rparr>"

definition sample_label_results :: video_annotation_results where
  "sample_label_results =
     \<lparr>segment_label_annotations =
        [\<lparr>entity = \<lparr>description = ''cat''\<rparr>,
          category_entities = [\<lparr>description = ''animal''\<rparr>],
          segments = [\<lparr>segment = \<lparr>start_time_offset = 0, end_time_offset = 5\<rparr>,
                       confidence = 0.5\<rparr>,
                      \<lparr>segment = \<lparr>start_time_offset = 5, end_time_offset = 8\<rparr>,
                       confidence = 0.95\<rparr>]\<rparr>,
         \<lparr>entity = \<lparr>description = ''dog''\<rparr>,
          category_entities = [],
          segments = [\<lparr>segment = \<lparr>start_time_offset = 1, end_time_offset = 2\<rparr>,
                       confidence = 0.9\<rparr>]\<rparr>,
         \<lparr>entity = \<lparr>description = ''tree''\<rparr>,
          category_entities = [],
          segments = [\<lparr>segment = \<lparr>start_time_offset = 2, end_time_offset = 3\<rparr>,
                       confidence = 0.5\<rparr>]\<rparr>],
      speech_transcriptions = []\<rparr>"

definition sample_speech_results :: video_annotation_results where
  "sample_speech_results =
     \<lparr>segment_label_annotations = [],
      speech_transcriptions =
        [\<lparr>alternatives = [\<lparr>transcript = '' hello '', alt_confidence = 0.8\<rparr>,
                          \<lparr>transcript = ''hollow'', alt_confidence = 0.9\<rparr>]\<rparr>,
         \<lparr>alternatives = [\<lparr>transcript = ''bye'', alt_confidence = 0.75\<rparr>]\<rparr>]\<rparr>"

definition sample_event :: event where
  "sample_event = [(''bucket'', ''b''), (''name'', ''clip.mp4'')]"

definition empty_world :: "(table_ref set) world" where
  "empty_world = \<lparr>trace = [], store = {}\<rparr>"


text \<open>
  The request for \<open>sample_event\<close>, and what a run of \<open>process_video\<close> on it has done
  when it reaches the appends, over the store of tables started empty with the two sample
  results returned by the annotation service: the two lines of \<open>analyze_video\<close> and its
  call, the label report, the speech report, and the provisioning of the two tables.
\<close>

definition sample_request :: request where
  "sample_request =
     \<lparr>req_features = features, input_uri = ''gs://b/clip.mp4'',
      output_uri = ''gs://outputbucket-cloud9/clip.json'',
      req_video_context = video_context\<rparr>"

definition sample_run_prefix :: "effect list" where
  "sample_run_prefix =
     [Stdout ''event'',
      Stdout (''Processing video '' @ [CHR 0x22] @ ''gs://b/clip.mp4'' @ [CHR 0x22] @ ''...''),
      AnnotateVideo sample_request,
      Stdout (center 80 (CHR ''-'') '' Video labels: 3 ''),
      Stdout ''pct | sec | sec | dog'',
      Stdout ''pct | sec | sec | cat (animal)'',
      Stdout ''pct | sec | sec | cat (animal)'',
      Stdout ''pct | sec | sec | tree'',
      Stdout (center 80 (CHR ''-'') '' Speech transcriptions: 1 ''),
      Stdout '' pct | hello'',
      BigqueryClient,
      GetTable table_ref_labels,
      CreateTable table_ref_labels schema_labels,
      Stdout ''Table annotation_labels created.'',
      GetTable table_ref_transcript,
      CreateTable table_ref_transcript schema_transcript,
      Stdout ''Table annotation_transcripts created.'']"

section \<open>Indexing and splitting\<close>

lemma split_char_not_Nil: "split_char c s \<noteq> []"
  by (induction s) (auto split: list.splits)

lemma hd_split_char: "hd (split_char c s) = takeWhile (\<lambda>x. x \<noteq> c) s"
  by (induction s) (auto split: list.splits simp: split_char_not_Nil)

lemma py_index_first: "xs \<noteq> [] \<Longrightarrow> py_index xs 0 = Inr (hd xs)"
  by (cases xs) (simp_all add: py_index_def)

lemma py_index_last: "xs \<noteq> [] \<Longrightarrow> py_index xs (- 1) = Inr (last xs)"
proof -
  assume ne: "xs \<noteq> []"
  then have len: "0 < length xs" by simp
  have "nat (- 1 + int (length xs)) = length xs - 1"
    using len by linarith
  then show ?thesis
    using ne len by (simp add: py_index_def Let_def last_conv_nth)
qed

lemma first_piece: "py_index (split_char c s) 0 = Inr (takeWhile (\<lambda>x. x \<noteq> c) s)"
  by (simp add: py_index_first split_char_not_Nil hd_split_char)

lemma takeWhile_before_first:
  assumes "c \<in> set s"
  shows "\<exists>rest. s = takeWhile (\<lambda>x. x \<noteq> c) s @ c # rest"
proof -
  have "dropWhile (\<lambda>x. x \<noteq> c) s \<noteq> []"
    using assms by (simp add: dropWhile_eq_Nil_conv)
  then obtain y rest where d: "dropWhile (\<lambda>x. x \<noteq> c) s = y # rest"
    by (cases "dropWhile (\<lambda>x. x \<noteq> c) s") auto
  then have "y = c"
    using hd_dropWhile [of "\<lambda>x. x \<noteq> c" s] by fastforce
  with d have "s = takeWhile (\<lambda>x. x \<noteq> c) s @ c # rest"
    using takeWhile_dropWhile_id [of "\<lambda>x. x \<noteq> c" s] by simp
  then show ?thesis ..
qed

lemma takeWhile_before_first2:
  assumes "c \<in> set s"
  shows "\<exists>rest. s = takeWhile (\<lambda>x. x \<noteq> c) s @ [c] @ rest"
  using takeWhile_before_first [OF assms] by simp

lemma py_index_second: "py_index (a # b # xs) 1 = Inr b"
  by (simp add: py_index_def)

lemma length_split_char:
  "length (split_char c s) = Suc (length (filter (\<lambda>x. x = c) s))"
  by (induction s) (auto split: list.splits)

lemma split_char_no_sep: "c \<notin> set s \<Longrightarrow> split_char c s = [s]"
  by (induction s) auto

lemma last_split_char_append:
  "last (split_char c (xs @ c # ys)) = last (split_char c ys)"
proof (induction xs)
  case Nil
  show ?case by (simp add: split_char_not_Nil)
next
  case (Cons x xs)
  have "2 \<le> length (split_char c (xs @ c # ys))"
    by (simp add: length_split_char)
  then obtain p q qs where "split_char c (xs @ c # ys) = p # q # qs"
    by (cases "split_char c (xs @ c # ys)"; cases "tl (split_char c (xs @ c # ys))") auto
  with Cons show ?case by simp
qed

lemma last_split_char:
  "c \<notin> set (last (split_char c s))
   \<and> (s = last (split_char c s) \<or> (\<exists>pre. s = pre @ [c] @ last (split_char c s)))"
proof (cases "c \<in> set s")
  case True
  then obtain ys zs where d: "s = ys @ c # zs" and z: "c \<notin> set zs"
    using split_list_last [of c s] by blast
  have l: "last (split_char c s) = zs"
    using z by (simp add: d last_split_char_append split_char_no_sep)
  have "s = ys @ [c] @ zs" using d by simp
  then have "\<exists>pre. s = pre @ [c] @ zs" ..
  with z show ?thesis by (simp only: l) blast
next
  case False
  then show ?thesis by (simp add: split_char_no_sep)
qed

lemma table_refs_distinct: "table_ref_labels \<noteq> table_ref_transcript"
  by (simp add: table_ref_labels_def table_ref_transcript_def TABLE_ID_LABELS_def
      TABLE_ID_TRANSCRIPT_def)

lemma inserted_rows_append:
  "inserted_rows tref (xs @ ys) = inserted_rows tref xs @ inserted_rows tref ys"
  by (induction tref xs rule: inserted_rows.induct) simp_all

lemma append_attempted_append:
  "append_attempted tref (xs @ ys) = (append_attempted tref xs \<or> append_attempted tref ys)"
  by (induction tref xs rule: append_attempted.induct) simp_all

section \<open>The request builder\<close>

lemma build_request_ok:
  assumes "map_of event ''bucket'' = Some bucket" and "map_of event ''name'' = Some name"
  shows "build_request event =
     Inr \<lparr>req_features = features,
          input_uri = ''gs://'' @ bucket @ ''/'' @ name,
          output_uri = OUTPUT_BUCKET @ ''/'' @ takeWhile (\<lambda>x. x \<noteq> CHR ''.'') name @ ''.json'',
          req_video_context = video_context\<rparr>"
  using assms by (simp add: build_request_def py_getitem_def first_piece)

text \<open>
  C1. For an event with a bucket and an object name that contains a dot, the request has
  input_uri = "gs://" + bucket + "/" + name and output_uri =
  "gs://outputbucket-cloud9/" + stem + ".json", where stem is the part of the name before
  its first dot; the event with bucket "b" and name "clip.mp4" gives "gs://b/clip.mp4" and
  "gs://outputbucket-cloud9/clip.json".
\<close>

theorem build_request_uris:
  "(map_of event ''bucket'' = Some bucket \<and> map_of event ''name'' = Some name
      \<and> CHR ''.'' \<in> set name \<longrightarrow>
    (\<exists>stem rest r.
       name = stem @ ''.'' @ rest \<and> CHR ''.'' \<notin> set stem
       \<and> build_request event = Inr r
       \<and> input_uri r = ''gs://'' @ bucket @ ''/'' @ name
       \<and> output_uri r = ''gs://outputbucket-cloud9/'' @ stem @ ''.json''))
   \<and> (\<exists>r. build_request [(''bucket'', ''b''), (''name'', ''clip.mp4'')] = Inr r
         \<and> input_uri r = ''gs://b/clip.mp4''
         \<and> output_uri r = ''gs://outputbucket-cloud9/clip.json'')"
proof (intro conjI impI)
  assume h: "map_of event ''bucket'' = Some bucket \<and> map_of event ''name'' = Some name
      \<and> CHR ''.'' \<in> set name"
  let ?stem = "takeWhile (\<lambda>x. x \<noteq> CHR ''.'') name"
  let ?r = "\<lparr>req_features = features,
             input_uri = ''gs://'' @ bucket @ ''/'' @ name,
             output_uri = OUTPUT_BUCKET @ ''/'' @ ?stem @ ''.json'',
             req_video_context = video_context\<rparr>"
  from h obtain rest where n: "name = ?stem @ ''.'' @ rest"
    using takeWhile_before_first2 [of "CHR ''.''" name] by auto
  have nodot: "CHR ''.'' \<notin> set ?stem"
    by (auto dest: set_takeWhileD)
  have b: "build_request event = Inr ?r"
    using h by (simp add: build_request_ok)
  have i: "input_uri ?r = ''gs://'' @ bucket @ ''/'' @ name"
    by simp
  have o: "output_uri ?r = ''gs://outputbucket-cloud9/'' @ ?stem @ ''.json''"
    by (simp add: OUTPUT_BUCKET_def)
  show "\<exists>stem rest r.
       name = stem @ ''.'' @ rest \<and> CHR ''.'' \<notin> set stem
       \<and> build_request event = Inr r
       \<and> input_uri r = ''gs://'' @ bucket @ ''/'' @ name
       \<and> output_uri r = ''gs://outputbucket-cloud9/'' @ stem @ ''.json''"
    by (rule exI [of _ ?stem], rule exI [of _ rest], rule exI [of _ ?r], intro conjI)
       (rule n nodot b i o)+
next
  show "\<exists>r. build_request [(''bucket'', ''b''), (''name'', ''clip.mp4'')] = Inr r
         \<and> input_uri r = ''gs://b/clip.mp4''
         \<and> output_uri r = ''gs://outputbucket-cloud9/clip.json''"
    by (simp add: build_request_ok OUTPUT_BUCKET_def)
qed

theorem build_request_uris_witness:
  "map_of [(''bucket'', ''vids''), (''name'', ''a.b.mp4'')] ''bucket'' = Some ''vids''
   \<and> map_of [(''bucket'', ''vids''), (''name'', ''a.b.mp4'')] ''name'' = Some ''a.b.mp4''
   \<and> CHR ''.'' \<in> set ''a.b.mp4''
   \<and> (\<exists>r. build_request [(''bucket'', ''vids''), (''name'', ''a.b.mp4'')] = Inr r
         \<and> input_uri r = ''gs://vids/a.b.mp4''
         \<and> output_uri r = ''gs://outputbucket-cloud9/a.json'')"
proof -
  have h: "map_of [(''bucket'', ''vids''), (''name'', ''a.b.mp4'')] ''bucket'' = Some ''vids''
     \<and> map_of [(''bucket'', ''vids''), (''name'', ''a.b.mp4'')] ''name'' = Some ''a.b.mp4''
     \<and> CHR ''.'' \<in> set ''a.b.mp4''"
    by simp
  from build_request_uris [of "[(''bucket'', ''vids''), (''name'', ''a.b.mp4'')]" "''vids''" "''a.b.mp4''"] h
  obtain stem rest r where
    s: "''a.b.mp4'' = stem @ ''.'' @ rest" "CHR ''.'' \<notin> set stem"
    and r: "build_request [(''bucket'', ''vids''), (''name'', ''a.b.mp4'')] = Inr r"
      "input_uri r = ''gs://'' @ ''vids'' @ ''/'' @ ''a.b.mp4''"
      "output_uri r = ''gs://outputbucket-cloud9/'' @ stem @ ''.json''"
    by blast
  have "stem = ''a''"
    using s by (auto simp: append_eq_Cons_conv Cons_eq_append_conv)
  with r h show ?thesis by simp
qed

section \<open>The label report is sorted\<close>

lemma keyed_total:
  "\<forall>x\<in>set xs. key x = Inr (k x) \<Longrightarrow> keyed key xs = Inr (map (\<lambda>x. (k x, x)) xs)"
  by (induction xs) simp_all

lemma insort_key_decorated:
  "insort_key fst (k x, x) (map (\<lambda>y. (k y, y)) ys) = map (\<lambda>y. (k y, y)) (insort_key k x ys)"
  by (induction ys) simp_all

lemma sort_key_decorated:
  "sort_key fst (map (\<lambda>y. (k y, y)) ys) = map (\<lambda>y. (k y, y)) (sort_key k ys)"
  by (induction ys) (simp_all add: insort_key_decorated)

lemma sorted_reverse_total:
  assumes "\<forall>x\<in>set xs. key x = Inr (k x)"
  shows "sorted_reverse key xs = Inr (rev (sort_key k (rev xs)))"
proof -
  have "rev (map (\<lambda>x. (k x, x)) xs) = map (\<lambda>x. (k x, x)) (rev xs)"
    by (simp add: rev_map)
  then have "sort_key fst (rev (map (\<lambda>x. (k x, x)) xs)) = map (\<lambda>x. (k x, x)) (sort_key k (rev xs))"
    by (simp only: sort_key_decorated)
  then have "map snd (rev (sort_key fst (rev (map (\<lambda>x. (k x, x)) xs)))) = rev (sort_key k (rev xs))"
    by (simp add: rev_map o_def)
  then show ?thesis
    by (simp add: sorted_reverse_def keyed_total [OF assms])
qed

lemma rev_sort_descending:
  "sorted_wrt (\<lambda>a b. k b \<le> k a) (rev (sort_key k ys))"
proof -
  have "sorted (map k (sort_key k ys))" by (rule sorted_sort_key)
  then have "sorted_wrt (\<lambda>a b. k a \<le> k b) (sort_key k ys)"
    by (simp add: sorted_map)
  then show ?thesis
    by (simp add: sorted_wrt_rev)
qed

lemma rev_sort_stable:
  "filter (\<lambda>y. k y = c) (rev (sort_key k (rev xs))) = filter (\<lambda>y. k y = c) xs"
  by (simp add: rev_filter [symmetric] sort_key_stable)

lemma first_segment_confidence_total:
  "segments l \<noteq> [] \<Longrightarrow> first_segment_confidence l = Inr (confidence (hd (segments l)))"
  by (simp add: first_segment_confidence_def py_index_first)

lemma print_segments_trace:
  "print_segments env l c sgs w =
     w\<lparr>trace := trace w @ map (\<lambda>sg. Stdout (label_line env l c sg)) sgs\<rparr>"
  by (induction sgs arbitrary: w) (simp_all add: py_print_def)

lemma print_labels_trace:
  "print_labels env ls w =
     w\<lparr>trace := trace w @ concat (map (\<lambda>l. map (\<lambda>sg. Stdout (label_line env l
                 (category_entities_to_str (category_entities l)) sg)) (segments l)) ls)\<rparr>"
  by (induction ls arbitrary: w) (simp_all add: print_segments_trace)

text \<open>
  C4. When every label annotation has at least one segment, the label report lists the
  annotations by descending confidence of their first segment; annotations with equal
  first-segment confidence keep their input order (for each confidence value, the
  annotations with that value are the same list before and after sorting); the sorted list
  is a permutation of the input; and the lines printed are the header followed by, for each
  annotation in sorted order, one line for each of its segments in their original order.
\<close>

theorem label_report_sorted_stable:
  assumes "\<forall>l\<in>set (segment_label_annotations results). segments l \<noteq> []"
  shows "\<exists>labels.
      sorted_by_first_segment_confidence (segment_label_annotations results) = Inr labels
    \<and> sorted_wrt (\<lambda>a b. confidence (hd (segments b)) \<le> confidence (hd (segments a))) labels
    \<and> (\<forall>c. filter (\<lambda>l. confidence (hd (segments l)) = c) labels
            = filter (\<lambda>l. confidence (hd (segments l)) = c) (segment_label_annotations results))
    \<and> mset labels = mset (segment_label_annotations results)
    \<and> print_video_labels env results w =
        (Inr (),
         w\<lparr>trace := trace w
            @ Stdout (center 80 (CHR ''-'')
                       ('' Video labels: '' @ str_nat (length labels) @ '' ''))
            # concat (map (\<lambda>l. map (\<lambda>sg. Stdout
                  (fmt_percent env (confidence sg) @ '' | ''
                     @ fmt_seconds env (start_time_offset (segment sg)) @ '' | ''
                     @ fmt_seconds env (end_time_offset (segment sg)) @ '' | ''
                     @ description (entity l)
                     @ category_entities_to_str (category_entities l))) (segments l)) labels)\<rparr>)"
proof -
  let ?k = "\<lambda>l. confidence (hd (segments l))"
  let ?in = "segment_label_annotations results"
  let ?out = "rev (sort_key ?k (rev ?in))"
  have keys: "\<forall>l\<in>set ?in. first_segment_confidence l = Inr (?k l)"
    using assms by (simp add: first_segment_confidence_total)
  have s: "sorted_by_first_segment_confidence ?in = Inr ?out"
    unfolding sorted_by_first_segment_confidence_def
    using keys by (rule sorted_reverse_total)
  have d: "sorted_wrt (\<lambda>a b. ?k b \<le> ?k a) ?out"
    by (rule rev_sort_descending)
  have st: "\<forall>c. filter (\<lambda>l. ?k l = c) ?out = filter (\<lambda>l. ?k l = c) ?in"
    by (simp add: rev_sort_stable)
  have m: "mset ?out = mset ?in"
    by simp
  have p: "print_video_labels env results w =
        (Inr (),
         w\<lparr>trace := trace w
            @ Stdout (center 80 (CHR ''-'')
                       ('' Video labels: '' @ str_nat (length ?out) @ '' ''))
            # concat (map (\<lambda>l. map (\<lambda>sg. Stdout
                  (fmt_percent env (confidence sg) @ '' | ''
                     @ fmt_seconds env (start_time_offset (segment sg)) @ '' | ''
                     @ fmt_seconds env (end_time_offset (segment sg)) @ '' | ''
                     @ description (entity l)
                     @ category_entities_to_str (category_entities l))) (segments l)) ?out)\<rparr>)"
    by (simp add: print_video_labels_def s print_labels_trace py_print_def label_line_def)
  show ?thesis
    by (rule exI [of _ ?out], intro conjI) (rule s d st m p)+
qed

theorem label_report_sorted_stable_witness:
  "list_all (\<lambda>l. segments l \<noteq> []) (segment_label_annotations sample_label_results)
   \<and> (\<exists>labels.
         sorted_by_first_segment_confidence (segment_label_annotations sample_label_results)
           = Inr labels
       \<and> map (\<lambda>l. description (entity l)) labels = [''dog'', ''cat'', ''tree'']
       \<and> sorted_wrt (\<lambda>a b. confidence (hd (segments b)) \<le> confidence (hd (segments a))) labels
       \<and> mset labels = mset (segment_label_annotations sample_label_results))"
proof -
  have h: "\<forall>l\<in>set (segment_label_annotations sample_label_results). segments l \<noteq> []"
    by (simp add: sample_label_results_def)
  from label_report_sorted_stable
         [where results = sample_label_results
            and env = "sample_env (\<lambda>r. Inr []) (\<lambda>t. None) (\<lambda>t. [])"
            and w = empty_world, OF h]
  obtain labels where
    a: "sorted_by_first_segment_confidence (segment_label_annotations sample_label_results)
          = Inr labels"
    and b: "sorted_wrt (\<lambda>a b. confidence (hd (segments b)) \<le> confidence (hd (segments a))) labels"
    and c: "mset labels = mset (segment_label_annotations sample_label_results)"
    by blast
  have "sorted_by_first_segment_confidence (segment_label_annotations sample_label_results)
          = Inr [segment_label_annotations sample_label_results ! 1,
                 segment_label_annotations sample_label_results ! 0,
                 segment_label_annotations sample_label_results ! 2]"
    by (simp add: sample_label_results_def sorted_by_first_segment_confidence_def
        sorted_reverse_def first_segment_confidence_def py_index_def)
  with a have d: "map (\<lambda>l. description (entity l)) labels = [''dog'', ''cat'', ''tree'']"
    by (simp add: sample_label_results_def)
  have h': "list_all (\<lambda>l. segments l \<noteq> []) (segment_label_annotations sample_label_results)"
    using h by (simp only: list_all_iff)
  show ?thesis
    by (rule conjI [OF h'], rule exI [of _ labels], intro conjI) (rule a d b c)+
qed

section \<open>The speech report\<close>

lemma keep_transcriptions_total:
  "\<forall>t\<in>set ts. alternatives t \<noteq> [] \<Longrightarrow>
   keep_transcriptions mc ts = Inr (filter (\<lambda>t. mc \<le> alt_confidence (hd (alternatives t))) ts)"
  by (induction ts) (simp_all add: keep_transcription_def py_index_first)

lemma print_transcriptions_trace:
  "\<forall>t\<in>set ts. alternatives t \<noteq> [] \<Longrightarrow>
   print_transcriptions env ts w =
     (Inr (), w\<lparr>trace := trace w @ map (\<lambda>t. Stdout (speech_line env (hd (alternatives t)))) ts\<rparr>)"
  by (induction ts arbitrary: w) (simp_all add: py_index_first py_print_def)

lemma print_video_speech_total:
  assumes "\<forall>t\<in>set (speech_transcriptions results). alternatives t \<noteq> []"
  shows "print_video_speech env results mc w =
      (Inr (),
       w\<lparr>trace := trace w
          @ Stdout (center 80 (CHR ''-'')
              ('' Speech transcriptions: ''
                 @ str_nat (length (filter (\<lambda>t. mc \<le> alt_confidence (hd (alternatives t)))
                                      (speech_transcriptions results))) @ '' ''))
          # map (\<lambda>t. Stdout (speech_line env (hd (alternatives t))))
              (filter (\<lambda>t. mc \<le> alt_confidence (hd (alternatives t)))
                 (speech_transcriptions results))\<rparr>)"
proof -
  let ?kept = "filter (\<lambda>t. mc \<le> alt_confidence (hd (alternatives t)))
                 (speech_transcriptions results)"
  have k: "keep_transcriptions mc (speech_transcriptions results) = Inr ?kept"
    using assms by (rule keep_transcriptions_total)
  have "\<forall>t\<in>set ?kept. alternatives t \<noteq> []"
    using assms by simp
  then show ?thesis
    by (simp add: print_video_speech_def k print_transcriptions_trace py_print_def)
qed

text \<open>
  C5. When every transcription has at least one alternative, the speech report prints its
  header and then one line for exactly those transcriptions whose first alternative has a
  confidence greater than or equal to the threshold, in order, each line made of that
  alternative's confidence and its stripped transcript only. The default threshold is 0.8:
  a transcription whose first alternative has confidence exactly 0.8 is kept and one with
  confidence 0.75 is dropped.
\<close>

theorem speech_report_threshold:
  "((\<forall>t\<in>set (speech_transcriptions results). alternatives t \<noteq> []) \<longrightarrow>
      print_video_speech env results min_conf w =
        (Inr (),
         w\<lparr>trace := trace w
            @ Stdout (center 80 (CHR ''-'')
                ('' Speech transcriptions: ''
                   @ str_nat (length (filter (\<lambda>t. min_conf \<le> alt_confidence (hd (alternatives t)))
                                        (speech_transcriptions results))) @ '' ''))
            # map (\<lambda>t. Stdout ('' '' @ fmt_percent env (alt_confidence (hd (alternatives t)))
                                  @ '' | '' @ strip (transcript (hd (alternatives t)))))
                (filter (\<lambda>t. min_conf \<le> alt_confidence (hd (alternatives t)))
                   (speech_transcriptions results))\<rparr>))
   \<and> default_min_confidence = 0.8
   \<and> keep_transcriptions default_min_confidence
        [\<lparr>alternatives = \<lparr>transcript = txt, alt_confidence = 0.8\<rparr> # alts\<rparr>]
       = Inr [\<lparr>alternatives = \<lparr>transcript = txt, alt_confidence = 0.8\<rparr> # alts\<rparr>]
   \<and> keep_transcriptions default_min_confidence
        [\<lparr>alternatives = \<lparr>transcript = txt, alt_confidence = 0.75\<rparr> # alts\<rparr>]
       = Inr []"
proof (intro conjI impI)
  assume "\<forall>t\<in>set (speech_transcriptions results). alternatives t \<noteq> []"
  then show "print_video_speech env results min_conf w =
        (Inr (),
         w\<lparr>trace := trace w
            @ Stdout (center 80 (CHR ''-'')
                ('' Speech transcriptions: ''
                   @ str_nat (length (filter (\<lambda>t. min_conf \<le> alt_confidence (hd (alternatives t)))
                                        (speech_transcriptions results))) @ '' ''))
            # map (\<lambda>t. Stdout ('' '' @ fmt_percent env (alt_confidence (hd (alternatives t)))
                                  @ '' | '' @ strip (transcript (hd (alternatives t)))))
                (filter (\<lambda>t. min_conf \<le> alt_confidence (hd (alternatives t)))
                   (speech_transcriptions results))\<rparr>)"
    by (simp add: print_video_speech_total speech_line_def)
next
  show "default_min_confidence = 0.8"
    by (simp add: default_min_confidence_def)
next
  show "keep_transcriptions default_min_confidence
        [\<lparr>alternatives = \<lparr>transcript = txt, alt_confidence = 0.8\<rparr> # alts\<rparr>]
       = Inr [\<lparr>alternatives = \<lparr>transcript = txt, alt_confidence = 0.8\<rparr> # alts\<rparr>]"
    by (simp add: keep_transcription_def py_index_def default_min_confidence_def)
next
  show "keep_transcriptions default_min_confidence
        [\<lparr>alternatives = \<lparr>transcript = txt, alt_confidence = 0.75\<rparr> # alts\<rparr>]
       = Inr []"
    by (simp add: keep_transcription_def py_index_def default_min_confidence_def)
qed

theorem speech_report_threshold_witness:
  "list_all (\<lambda>t. alternatives t \<noteq> []) (speech_transcriptions sample_speech_results)
   \<and> print_video_speech (sample_env (\<lambda>r. Inr []) (\<lambda>t. None) (\<lambda>t. []))
        sample_speech_results default_min_confidence empty_world =
       (Inr (),
        empty_world\<lparr>trace :=
          [Stdout (center 80 (CHR ''-'') '' Speech transcriptions: 1 ''),
           Stdout '' pct | hello'']\<rparr>)"
proof -
  let ?env = "sample_env (\<lambda>r. Inr []) (\<lambda>t. None) (\<lambda>t. [])"
  have h: "\<forall>t\<in>set (speech_transcriptions sample_speech_results). alternatives t \<noteq> []"
    by (simp add: sample_speech_results_def)
  note t = speech_report_threshold
         [where results = sample_speech_results and env = ?env
            and min_conf = default_min_confidence and w = empty_world]
  from t have "(\<forall>t\<in>set (speech_transcriptions sample_speech_results). alternatives t \<noteq> []) \<longrightarrow>
      print_video_speech ?env sample_speech_results default_min_confidence empty_world =
        (Inr (),
         empty_world\<lparr>trace := trace empty_world
            @ Stdout (center 80 (CHR ''-'')
                ('' Speech transcriptions: ''
                   @ str_nat (length (filter (\<lambda>t. default_min_confidence \<le> alt_confidence (hd (alternatives t)))
                                        (speech_transcriptions sample_speech_results))) @ '' ''))
            # map (\<lambda>t. Stdout ('' '' @ fmt_percent ?env (alt_confidence (hd (alternatives t)))
                                  @ '' | '' @ strip (transcript (hd (alternatives t)))))
                (filter (\<lambda>t. default_min_confidence \<le> alt_confidence (hd (alternatives t)))
                   (speech_transcriptions sample_speech_results))\<rparr>)"
    by (rule conjunct1)
  from this h have a: "print_video_speech ?env sample_speech_results default_min_confidence empty_world =
        (Inr (),
         empty_world\<lparr>trace := trace empty_world
            @ Stdout (center 80 (CHR ''-'')
                ('' Speech transcriptions: ''
                   @ str_nat (length (filter (\<lambda>t. default_min_confidence \<le> alt_confidence (hd (alternatives t)))
                                        (speech_transcriptions sample_speech_results))) @ '' ''))
            # map (\<lambda>t. Stdout ('' '' @ fmt_percent ?env (alt_confidence (hd (alternatives t)))
                                  @ '' | '' @ strip (transcript (hd (alternatives t)))))
                (filter (\<lambda>t. default_min_confidence \<le> alt_confidence (hd (alternatives t)))
                   (speech_transcriptions sample_speech_results))\<rparr>)"
    by (rule mp)
  have b: "print_video_speech ?env sample_speech_results default_min_confidence empty_world =
       (Inr (),
        empty_world\<lparr>trace :=
          [Stdout (center 80 (CHR ''-'') '' Speech transcriptions: 1 ''),
           Stdout '' pct | hello'']\<rparr>)"
    unfolding a
    by (simp add: sample_speech_results_def sample_env_def empty_world_def
        default_min_confidence_def strip_def py_isspace_def str_nat.simps)
  have h': "list_all (\<lambda>t. alternatives t \<noteq> []) (speech_transcriptions sample_speech_results)"
    using h by (simp only: list_all_iff)
  from h' b show ?thesis by (rule conjI)
qed

section \<open>The rows of the two tables\<close>

lemma label_rows_segments_append:
  "label_rows_segments fn uri la sgs rows = rows @ map (label_row fn uri la) sgs"
  by (induction sgs arbitrary: rows) simp_all

lemma label_rows_append:
  "label_rows fn uri las rows =
     rows @ concat (map (\<lambda>la. map (label_row fn uri la) (segments la)) las)"
  by (induction las arbitrary: rows) (simp_all add: label_rows_segments_append)

lemma transcript_rows_append:
  "\<forall>t\<in>set ts. alternatives t \<noteq> [] \<Longrightarrow>
   transcript_rows fn ts rows =
     Inr (rows @ map (\<lambda>t. transcript_row fn (hd (alternatives t))) ts)"
  by (induction ts arbitrary: rows) (simp_all add: py_index_first)

lemma store_results_rows:
  assumes "bigquery_Client env = Inr ()"
    and "\<forall>t\<in>set (speech_transcriptions rt). alternatives t \<noteq> []"
  shows "store_results_in_bigquery env video_uri (rl # rt # more_results) w =
     insert_rows env
       (concat (map (\<lambda>la. map (label_row (last (split_char (CHR ''/'') video_uri)) video_uri la)
                  (segments la)) (segment_label_annotations rl)))
       (map (\<lambda>t. transcript_row (last (split_char (CHR ''/'') video_uri)) (hd (alternatives t)))
          (speech_transcriptions rt))
       (w\<lparr>trace := trace w @ [BigqueryClient]\<rparr>)"
  using assms(1)
  by (simp add: store_results_in_bigquery_def py_index_first py_index_second py_index_last
      split_char_not_Nil call_bigquery_Client_def label_rows_append
      transcript_rows_append [OF assms(2)])

lemma label_row_fields:
  "label_row fn uri la =
     (\<lambda>sg. [(''file_name'', JString fn),
            (''label'', JString (description (entity la))),
            (''confidence'', JFloat (confidence sg)),
            (''start_time'', JFloat (start_time_offset (segment sg))),
            (''end_time'', JFloat (end_time_offset (segment sg))),
            (''file_uri'', JString uri)])"
  by (rule ext) (simp add: label_row_def Let_def)

text \<open>
  C3. The projection builds one label row for each segment of each label annotation, in
  order, carrying the file name, the label's description, that segment's confidence, start
  and end time, and the video URI, so that the number of label rows is the sum of the
  numbers of segments; and, when every transcription has at least one alternative, one
  transcript row for each transcription, built from its first alternative. These are the
  rows that \<open>store_results_in_bigquery\<close> hands to the two appends.
\<close>

theorem projection_rows:
  "label_rows file_name video_uri las [] =
     concat (map (\<lambda>la. map (\<lambda>sg.
        [(''file_name'', JString file_name),
         (''label'', JString (description (entity la))),
         (''confidence'', JFloat (confidence sg)),
         (''start_time'', JFloat (start_time_offset (segment sg))),
         (''end_time'', JFloat (end_time_offset (segment sg))),
         (''file_uri'', JString video_uri)]) (segments la)) las)
   \<and> length (label_rows file_name video_uri las []) = (\<Sum>la\<leftarrow>las. length (segments la))
   \<and> ((\<forall>t\<in>set ts. alternatives t \<noteq> []) \<longrightarrow>
        transcript_rows file_name ts [] =
          Inr (map (\<lambda>t. [(''file_name'', JString file_name),
                          (''transcript'', JString (transcript (hd (alternatives t)))),
                          (''confidence'', JFloat (alt_confidence (hd (alternatives t))))]) ts)
        \<and> (\<exists>rows. transcript_rows file_name ts [] = Inr rows \<and> length rows = length ts))
   \<and> (bigquery_Client env = Inr ()
        \<and> (\<forall>t\<in>set (speech_transcriptions rt). alternatives t \<noteq> []) \<longrightarrow>
        (\<exists>name. store_results_in_bigquery env video_uri (rl # rt # more_results) w =
           insert_rows env
             (label_rows name video_uri (segment_label_annotations rl) [])
             (map (\<lambda>t. transcript_row name (hd (alternatives t))) (speech_transcriptions rt))
             (w\<lparr>trace := trace w @ [BigqueryClient]\<rparr>)
         \<and> transcript_rows name (speech_transcriptions rt) [] =
             Inr (map (\<lambda>t. transcript_row name (hd (alternatives t)))
                    (speech_transcriptions rt))))"
proof (intro conjI impI)
  show "label_rows file_name video_uri las [] =
     concat (map (\<lambda>la. map (\<lambda>sg.
        [(''file_name'', JString file_name),
         (''label'', JString (description (entity la))),
         (''confidence'', JFloat (confidence sg)),
         (''start_time'', JFloat (start_time_offset (segment sg))),
         (''end_time'', JFloat (end_time_offset (segment sg))),
         (''file_uri'', JString video_uri)]) (segments la)) las)"
    by (simp add: label_rows_append label_row_fields)
next
  show "length (label_rows file_name video_uri las []) = (\<Sum>la\<leftarrow>las. length (segments la))"
    by (simp add: label_rows_append length_concat o_def)
next
  assume "\<forall>t\<in>set ts. alternatives t \<noteq> []"
  then show "transcript_rows file_name ts [] =
          Inr (map (\<lambda>t. [(''file_name'', JString file_name),
                          (''transcript'', JString (transcript (hd (alternatives t)))),
                          (''confidence'', JFloat (alt_confidence (hd (alternatives t))))]) ts)"
    by (simp add: transcript_rows_append transcript_row_def)
next
  assume "\<forall>t\<in>set ts. alternatives t \<noteq> []"
  then show "\<exists>rows. transcript_rows file_name ts [] = Inr rows \<and> length rows = length ts"
    by (simp add: transcript_rows_append)
next
  assume h: "bigquery_Client env = Inr ()
        \<and> (\<forall>t\<in>set (speech_transcriptions rt). alternatives t \<noteq> [])"
  let ?name = "last (split_char (CHR ''/'') video_uri)"
  have a: "store_results_in_bigquery env video_uri (rl # rt # more_results) w =
           insert_rows env
             (label_rows ?name video_uri (segment_label_annotations rl) [])
             (map (\<lambda>t. transcript_row ?name (hd (alternatives t))) (speech_transcriptions rt))
             (w\<lparr>trace := trace w @ [BigqueryClient]\<rparr>)"
    using h by (simp add: store_results_rows label_rows_append)
  have b: "transcript_rows ?name (speech_transcriptions rt) [] =
             Inr (map (\<lambda>t. transcript_row ?name (hd (alternatives t)))
                    (speech_transcriptions rt))"
    using h by (simp add: transcript_rows_append)
  show "\<exists>name. store_results_in_bigquery env video_uri (rl # rt # more_results) w =
           insert_rows env
             (label_rows name video_uri (segment_label_annotations rl) [])
             (map (\<lambda>t. transcript_row name (hd (alternatives t))) (speech_transcriptions rt))
             (w\<lparr>trace := trace w @ [BigqueryClient]\<rparr>)
         \<and> transcript_rows name (speech_transcriptions rt) [] =
             Inr (map (\<lambda>t. transcript_row name (hd (alternatives t)))
                    (speech_transcriptions rt))"
    by (rule exI [of _ ?name], intro conjI) (rule a b)+
qed

theorem projection_rows_witness:
  "list_all (\<lambda>t. alternatives t \<noteq> []) (speech_transcriptions sample_speech_results)
   \<and> bigquery_Client (sample_env (\<lambda>r. Inr []) (\<lambda>t. None) (\<lambda>t. [])) = Inr ()
   \<and> length (label_rows ''clip.mp4'' ''gs://b/clip.mp4''
          (segment_label_annotations sample_label_results) []) = 4
   \<and> transcript_rows ''clip.mp4'' (speech_transcriptions sample_speech_results) [] =
       Inr [[(''file_name'', JString ''clip.mp4''), (''transcript'', JString '' hello ''),
             (''confidence'', JFloat 0.8)],
            [(''file_name'', JString ''clip.mp4''), (''transcript'', JString ''bye''),
             (''confidence'', JFloat 0.75)]]
   \<and> (\<exists>name. store_results_in_bigquery (sample_env (\<lambda>r. Inr []) (\<lambda>t. None) (\<lambda>t. []))
          ''gs://b/clip.mp4'' [sample_label_results, sample_speech_results] empty_world =
        insert_rows (sample_env (\<lambda>r. Inr []) (\<lambda>t. None) (\<lambda>t. []))
          (label_rows name ''gs://b/clip.mp4'' (segment_label_annotations sample_label_results) [])
          (map (\<lambda>t. transcript_row name (hd (alternatives t)))
             (speech_transcriptions sample_speech_results))
          (empty_world\<lparr>trace := trace empty_world @ [BigqueryClient]\<rparr>))"
proof -
  let ?env = "sample_env (\<lambda>r. Inr []) (\<lambda>t. None) (\<lambda>t. [])"
  note p = projection_rows
         [where file_name = "''clip.mp4''" and video_uri = "''gs://b/clip.mp4''"
            and las = "segment_label_annotations sample_label_results"
            and ts = "speech_transcriptions sample_speech_results"
            and env = ?env and rl = sample_label_results and rt = sample_speech_results
            and more_results = "[]" and w = empty_world]
  have h1: "\<forall>t\<in>set (speech_transcriptions sample_speech_results). alternatives t \<noteq> []"
    by (simp add: sample_speech_results_def)
  have h2: "bigquery_Client ?env = Inr ()"
    by (simp add: sample_env_def)
  have a: "length (label_rows ''clip.mp4'' ''gs://b/clip.mp4''
          (segment_label_annotations sample_label_results) []) = 4"
    using p [THEN conjunct2, THEN conjunct1] by (simp add: sample_label_results_def)
  have b: "transcript_rows ''clip.mp4'' (speech_transcriptions sample_speech_results) [] =
       Inr [[(''file_name'', JString ''clip.mp4''), (''transcript'', JString '' hello ''),
             (''confidence'', JFloat 0.8)],
            [(''file_name'', JString ''clip.mp4''), (''transcript'', JString ''bye''),
             (''confidence'', JFloat 0.75)]]"
    using p [THEN conjunct2, THEN conjunct2, THEN conjunct1, THEN mp, OF h1, THEN conjunct1]
    by (simp add: sample_speech_results_def)
  have c: "\<exists>name. store_results_in_bigquery ?env
          ''gs://b/clip.mp4'' [sample_label_results, sample_speech_results] empty_world =
        insert_rows ?env
          (label_rows name ''gs://b/clip.mp4'' (segment_label_annotations sample_label_results) [])
          (map (\<lambda>t. transcript_row name (hd (alternatives t)))
             (speech_transcriptions sample_speech_results))
          (empty_world\<lparr>trace := trace empty_world @ [BigqueryClient]\<rparr>)"
    using p [THEN conjunct2, THEN conjunct2, THEN conjunct2, THEN mp, OF conjI [OF h2 h1]]
    by (elim exE conjE) (rule exI)
  have h1': "list_all (\<lambda>t. alternatives t \<noteq> []) (speech_transcriptions sample_speech_results)"
    using h1 by (simp only: list_all_iff)
  show ?thesis
    by (intro conjI) (rule h1' h2 a b c)+
qed

section \<open>The two appends\<close>

text \<open>The three ways through the \<open>try\<close> block.\<close>

lemma insert_rows_labels_raise:
  assumes "insert_rows_json env table_ref_labels lr (store w) = (Inl e, s1)"
  shows "insert_rows env lr tr w =
     (if is_GoogleCloudError e then Inr () else Inl e,
      w\<lparr>trace := trace w @ InsertRowsJson table_ref_labels lr
                  # (if is_GoogleCloudError e
                     then [Stdout (''Error inserting rows into BigQuery: '' @ str_error env e)]
                     else []),
        store := s1\<rparr>)"
  using assms
  by (simp add: insert_rows_def insert_rows_try_def call_insert_rows_json_def py_print_def)

lemma insert_rows_transcript_raise:
  assumes "insert_rows_json env table_ref_labels lr (store w) = (Inr errs, s1)"
    and "insert_rows_json env table_ref_transcript tr s1 = (Inl e, s2)"
  shows "insert_rows env lr tr w =
     (if is_GoogleCloudError e then Inr () else Inl e,
      w\<lparr>trace := trace w @
           [InsertRowsJson table_ref_labels lr,
            Stdout (if errs = [] then ''New rows have been added to the 'labels' table.''
                    else ''Encountered errors while inserting rows into 'labels' table: ''
                           @ repr_errors env errs),
            InsertRowsJson table_ref_transcript tr]
           @ (if is_GoogleCloudError e
              then [Stdout (''Error inserting rows into BigQuery: '' @ str_error env e)]
              else []),
        store := s2\<rparr>)"
  using assms
  by (simp add: insert_rows_def insert_rows_try_def call_insert_rows_json_def py_print_def)

lemma insert_rows_both_return:
  assumes "insert_rows_json env table_ref_labels lr (store w) = (Inr errs, s1)"
    and "insert_rows_json env table_ref_transcript tr s1 = (Inr errs2, s2)"
  shows "insert_rows env lr tr w =
     (Inr (),
      w\<lparr>trace := trace w @
           [InsertRowsJson table_ref_labels lr,
            Stdout (if errs = [] then ''New rows have been added to the 'labels' table.''
                    else ''Encountered errors while inserting rows into 'labels' table: ''
                           @ repr_errors env errs),
            InsertRowsJson table_ref_transcript tr,
            Stdout (if errs2 = [] then ''New rows have been added to the 'transcript' table.''
                    else ''Encountered errors while inserting rows into 'transcript' table: ''
                           @ repr_errors env errs2)],
        store := s2\<rparr>)"
  using assms
  by (simp add: insert_rows_def insert_rows_try_def call_insert_rows_json_def py_print_def)

lemma insert_rows_inserted:
  "inserted_rows table_ref_labels (trace (snd (insert_rows env lr tr w)))
     = inserted_rows table_ref_labels (trace w) @ lr
   \<and> (\<exists>b. (b = [] \<or> b = tr)
        \<and> inserted_rows table_ref_transcript (trace (snd (insert_rows env lr tr w)))
            = inserted_rows table_ref_transcript (trace w) @ b)"
proof (cases "insert_rows_json env table_ref_labels lr (store w)")
  case (Pair r1 s1)
  show ?thesis
  proof (cases r1)
    case (Inl e)
    with Pair have "insert_rows_json env table_ref_labels lr (store w) = (Inl e, s1)" by simp
    from insert_rows_labels_raise [OF this] show ?thesis
      using table_refs_distinct by (auto simp: inserted_rows_append)
  next
    case (Inr errs)
    with Pair have l: "insert_rows_json env table_ref_labels lr (store w) = (Inr errs, s1)"
      by simp
    show ?thesis
    proof (cases "insert_rows_json env table_ref_transcript tr s1")
      case (Pair r2 s2)
      show ?thesis
      proof (cases r2)
        case (Inl e)
        with Pair have "insert_rows_json env table_ref_transcript tr s1 = (Inl e, s2)" by simp
        from insert_rows_transcript_raise [OF l this] show ?thesis
          using table_refs_distinct by (auto simp: inserted_rows_append)
      next
        case (Inr errs2)
        with Pair have "insert_rows_json env table_ref_transcript tr s1 = (Inr errs2, s2)"
          by simp
        from insert_rows_both_return [OF l this] show ?thesis
          using table_refs_distinct by (auto simp: inserted_rows_append)
      qed
    qed
  qed
qed

section \<open>The file name in the rows\<close>

lemma label_rows_file_name:
  "\<forall>r\<in>set (label_rows fn uri las []).
     map_of r ''file_name'' = Some (JString fn) \<and> map_of r ''file_uri'' = Some (JString uri)"
  by (auto simp: label_rows_append label_row_fields)

lemma transcript_rows_file_name:
  "transcript_rows fn ts acc = Inr rows \<Longrightarrow>
   \<forall>r\<in>set acc. map_of r ''file_name'' = Some (JString fn) \<Longrightarrow>
   \<forall>r\<in>set rows. map_of r ''file_name'' = Some (JString fn)"
proof (induction ts arbitrary: acc)
  case Nil
  then show ?case by simp
next
  case (Cons t ts)
  from Cons.prems(1) obtain a where
    a: "py_index (alternatives t) 0 = Inr a"
    and r: "transcript_rows fn ts (acc @ [transcript_row fn a]) = Inr rows"
    by (auto split: sum.splits)
  have "\<forall>r\<in>set (acc @ [transcript_row fn a]). map_of r ''file_name'' = Some (JString fn)"
    using Cons.prems(2) by (simp add: transcript_row_def)
  with Cons.IH [OF r] show ?case .
qed

lemma store_results_shape:
  "(\<exists>e w'. store_results_in_bigquery env uri results w = (Inl e, w')
       \<and> (\<forall>t. inserted_rows t (trace w') = inserted_rows t (trace w)))
   \<or> (\<exists>(rl :: video_annotation_results) (rt :: video_annotation_results) tr.
         transcript_rows (last (split_char (CHR ''/'') uri)) (speech_transcriptions rt) [] = Inr tr
       \<and> store_results_in_bigquery env uri results w =
           insert_rows env
             (label_rows (last (split_char (CHR ''/'') uri)) uri (segment_label_annotations rl) [])
             tr (w\<lparr>trace := trace w @ [BigqueryClient]\<rparr>))"
proof -
  let ?fn = "last (split_char (CHR ''/'') uri)"
  let ?w1 = "w\<lparr>trace := trace w @ [BigqueryClient]\<rparr>"
  let ?err = "\<exists>e w'. store_results_in_bigquery env uri results w = (Inl e, w')
       \<and> (\<forall>t. inserted_rows t (trace w') = inserted_rows t (trace w))"
  have same: "\<forall>t. inserted_rows t (trace ?w1) = inserted_rows t (trace w)"
    by (simp add: inserted_rows_append)
  note defs = store_results_in_bigquery_def py_index_last split_char_not_Nil
    call_bigquery_Client_def
  show ?thesis
  proof (cases "py_index results 0")
    case (Inl e)
    then have "store_results_in_bigquery env uri results w = (Inl e, w)"
      by (simp add: defs)
    then have ?err by simp
    then show ?thesis ..
  next
    case rl: (Inr rl)
    show ?thesis
    proof (cases "py_index results 1")
      case (Inl e)
      then have "store_results_in_bigquery env uri results w = (Inl e, w)"
        using rl by (simp add: defs)
      then have ?err by simp
      then show ?thesis ..
    next
      case rt: (Inr rt)
      show ?thesis
      proof (cases "bigquery_Client env")
        case (Inl e)
        then have "store_results_in_bigquery env uri results w = (Inl e, ?w1)"
          using rl rt by (simp add: defs)
        with same have ?err by simp
        then show ?thesis ..
      next
        case cl: (Inr u)
        show ?thesis
        proof (cases "transcript_rows ?fn (speech_transcriptions rt) []")
          case (Inl e)
          then have "store_results_in_bigquery env uri results w = (Inl e, ?w1)"
            using rl rt cl by (simp add: defs)
          with same have ?err by simp
          then show ?thesis ..
        next
          case (Inr tr)
          then have "store_results_in_bigquery env uri results w =
              insert_rows env (label_rows ?fn uri (segment_label_annotations rl) []) tr ?w1"
            using rl rt cl by (simp add: defs)
          with Inr have c: "transcript_rows ?fn (speech_transcriptions rt) [] = Inr tr
            \<and> store_results_in_bigquery env uri results w =
                insert_rows env (label_rows ?fn uri (segment_label_annotations rl) []) tr ?w1"
            by (rule conjI)
          have "\<exists>(rl :: video_annotation_results) (rt :: video_annotation_results) tr.
              transcript_rows ?fn (speech_transcriptions rt) [] = Inr tr
            \<and> store_results_in_bigquery env uri results w =
                insert_rows env (label_rows ?fn uri (segment_label_annotations rl) []) tr ?w1"
            by (rule exI [of _ rl], rule exI [of _ rt], rule exI [of _ tr], rule c)
          then show ?thesis ..
        qed
      qed
    qed
  qed
qed

text \<open>
  C10. For every video URI, whatever \<open>store_results_in_bigquery\<close> hands to the append of
  the labels table and of the transcript table are rows whose \<open>file_name\<close> is the part of
  the URI after its last slash (the whole URI when it has none), the same for all of them,
  and the rows for the labels table carry the full URI as \<open>file_uri\<close>.
\<close>

theorem inserted_rows_file_name:
  "\<exists>file_name new_labels new_transcripts.
     CHR ''/'' \<notin> set file_name
   \<and> (video_uri = file_name \<or> (\<exists>prefix. video_uri = prefix @ ''/'' @ file_name))
   \<and> inserted_rows table_ref_labels
         (trace (snd (store_results_in_bigquery env video_uri results w)))
       = inserted_rows table_ref_labels (trace w) @ new_labels
   \<and> inserted_rows table_ref_transcript
         (trace (snd (store_results_in_bigquery env video_uri results w)))
       = inserted_rows table_ref_transcript (trace w) @ new_transcripts
   \<and> (\<forall>r\<in>set new_labels.
         map_of r ''file_name'' = Some (JString file_name)
       \<and> map_of r ''file_uri'' = Some (JString video_uri))
   \<and> (\<forall>r\<in>set new_transcripts. map_of r ''file_name'' = Some (JString file_name))"
proof -
  let ?fn = "last (split_char (CHR ''/'') video_uri)"
  let ?w' = "snd (store_results_in_bigquery env video_uri results w)"
  let ?w1 = "w\<lparr>trace := trace w @ [BigqueryClient]\<rparr>"
  let ?goal = "\<lambda>nl nt.
      inserted_rows table_ref_labels (trace ?w')
        = inserted_rows table_ref_labels (trace w) @ nl
    \<and> inserted_rows table_ref_transcript (trace ?w')
        = inserted_rows table_ref_transcript (trace w) @ nt
    \<and> (\<forall>r\<in>set nl.
         map_of r ''file_name'' = Some (JString ?fn)
       \<and> map_of r ''file_uri'' = Some (JString video_uri))
    \<and> (\<forall>r\<in>set nt. map_of r ''file_name'' = Some (JString ?fn))"
  have n1: "CHR ''/'' \<notin> set ?fn"
    using last_split_char [of "CHR ''/''" video_uri] by (rule conjunct1)
  have n2: "video_uri = ?fn \<or> (\<exists>prefix. video_uri = prefix @ ''/'' @ ?fn)"
    using last_split_char [of "CHR ''/''" video_uri] by (rule conjunct2)
  have "\<exists>nl nt. ?goal nl nt"
    using store_results_shape [of env video_uri results w]
  proof
    assume "\<exists>e w'. store_results_in_bigquery env video_uri results w = (Inl e, w')
       \<and> (\<forall>t. inserted_rows t (trace w') = inserted_rows t (trace w))"
    then have "\<forall>t. inserted_rows t (trace ?w') = inserted_rows t (trace w)"
      by auto
    then have e: "?goal [] []"
      by simp
    show ?thesis by (rule exI [of _ "[]"], rule exI [of _ "[]"], rule e)
  next
    assume "\<exists>(rl :: video_annotation_results) (rt :: video_annotation_results) tr.
         transcript_rows ?fn (speech_transcriptions rt) [] = Inr tr
       \<and> store_results_in_bigquery env video_uri results w =
           insert_rows env (label_rows ?fn video_uri (segment_label_annotations rl) []) tr ?w1"
    then show ?thesis
    proof (elim exE conjE)
      fix rl rt :: video_annotation_results and tr
      assume t: "transcript_rows ?fn (speech_transcriptions rt) [] = Inr tr"
        and s: "store_results_in_bigquery env video_uri results w =
           insert_rows env (label_rows ?fn video_uri (segment_label_annotations rl) []) tr ?w1"
      let ?lr = "label_rows ?fn video_uri (segment_label_annotations rl) []"
      note ins = insert_rows_inserted [of env ?lr tr ?w1]
      have i1: "inserted_rows table_ref_labels (trace (snd (insert_rows env ?lr tr ?w1)))
             = inserted_rows table_ref_labels (trace ?w1) @ ?lr"
        using ins by (rule conjunct1)
      have a1: "inserted_rows table_ref_labels (trace ?w')
          = inserted_rows table_ref_labels (trace w) @ ?lr"
        using i1 by (simp add: s inserted_rows_append)
      have a3: "\<forall>r\<in>set ?lr.
           map_of r ''file_name'' = Some (JString ?fn)
         \<and> map_of r ''file_uri'' = Some (JString video_uri)"
        by (rule label_rows_file_name)
      have tr: "\<forall>r\<in>set tr. map_of r ''file_name'' = Some (JString ?fn)"
        using t by (rule transcript_rows_file_name) simp
      from ins have "\<exists>b. (b = [] \<or> b = tr)
          \<and> inserted_rows table_ref_transcript (trace (snd (insert_rows env ?lr tr ?w1)))
              = inserted_rows table_ref_transcript (trace ?w1) @ b"
        by (rule conjunct2)
      then show ?thesis
      proof (elim exE conjE)
        fix b
        assume b: "b = [] \<or> b = tr"
          and i2: "inserted_rows table_ref_transcript (trace (snd (insert_rows env ?lr tr ?w1)))
              = inserted_rows table_ref_transcript (trace ?w1) @ b"
        have a2: "inserted_rows table_ref_transcript (trace ?w')
            = inserted_rows table_ref_transcript (trace w) @ b"
          using i2 by (simp add: s inserted_rows_append)
        from b tr have a4: "\<forall>r\<in>set b. map_of r ''file_name'' = Some (JString ?fn)"
          by auto
        have g: "?goal ?lr b"
          by (intro conjI) (rule a1 a2 a3 a4)+
        show ?thesis by (rule exI [of _ ?lr], rule exI [of _ b], rule g)
      qed
    qed
  qed
  then show ?thesis
  proof (elim exE)
    fix nl nt
    assume g: "?goal nl nt"
    show ?thesis
      by (rule exI [of _ ?fn], rule exI [of _ nl], rule exI [of _ nt], intro conjI)
         (rule n1 n2 g [THEN conjunct1] g [THEN conjunct2, THEN conjunct1]
            g [THEN conjunct2, THEN conjunct2, THEN conjunct1]
            g [THEN conjunct2, THEN conjunct2, THEN conjunct2])+
  qed
qed

theorem inserted_rows_file_name_witness:
  "(\<exists>file_name.
      CHR ''/'' \<notin> set file_name
    \<and> list_all (\<lambda>r. map_of r ''file_name'' = Some (JString file_name)
                     \<and> map_of r ''file_uri'' = Some (JString ''gs://b/clip.mp4''))
        (inserted_rows table_ref_labels
           (trace (snd (store_results_in_bigquery
              (sample_env (\<lambda>r. Inr []) (\<lambda>t. None) (\<lambda>t. [])) ''gs://b/clip.mp4''
              [sample_label_results, sample_speech_results] empty_world))))
    \<and> list_all (\<lambda>r. map_of r ''file_name'' = Some (JString file_name))
        (inserted_rows table_ref_transcript
           (trace (snd (store_results_in_bigquery
              (sample_env (\<lambda>r. Inr []) (\<lambda>t. None) (\<lambda>t. [])) ''gs://b/clip.mp4''
              [sample_label_results, sample_speech_results] empty_world)))))
   \<and> length (inserted_rows table_ref_labels
           (trace (snd (store_results_in_bigquery
              (sample_env (\<lambda>r. Inr []) (\<lambda>t. None) (\<lambda>t. [])) ''gs://b/clip.mp4''
              [sample_label_results, sample_speech_results] empty_world)))) = 4
   \<and> length (inserted_rows table_ref_transcript
           (trace (snd (store_results_in_bigquery
              (sample_env (\<lambda>r. Inr []) (\<lambda>t. None) (\<lambda>t. [])) ''gs://b/clip.mp4''
              [sample_label_results, sample_speech_results] empty_world)))) = 2"
proof -
  let ?env = "sample_env (\<lambda>r. Inr []) (\<lambda>t. None) (\<lambda>t. [])"
  let ?uri = "''gs://b/clip.mp4''"
  let ?fn = "last (split_char (CHR ''/'') ?uri)"
  let ?lr = "concat (map (\<lambda>la. map (label_row ?fn ?uri la) (segments la))
               (segment_label_annotations sample_label_results))"
  let ?tr = "map (\<lambda>t. transcript_row ?fn (hd (alternatives t)))
               (speech_transcriptions sample_speech_results)"
  let ?w1 = "empty_world\<lparr>trace := trace empty_world @ [BigqueryClient]\<rparr>"
  let ?w' = "snd (store_results_in_bigquery ?env ?uri
                [sample_label_results, sample_speech_results] empty_world)"
  have h1: "\<forall>t\<in>set (speech_transcriptions sample_speech_results). alternatives t \<noteq> []"
    by (simp add: sample_speech_results_def)
  have h2: "bigquery_Client ?env = Inr ()"
    by (simp add: sample_env_def)
  have s: "store_results_in_bigquery ?env ?uri
             [sample_label_results, sample_speech_results] empty_world
           = insert_rows ?env ?lr ?tr ?w1"
    using h2 h1 by (rule store_results_rows)
  have i1: "insert_rows_json ?env table_ref_labels ?lr (store ?w1) = (Inr [], {})"
    by (simp add: sample_env_def store_insert_rows_json_def empty_world_def)
  have i2: "insert_rows_json ?env table_ref_transcript ?tr {} = (Inr [], {})"
    by (simp add: sample_env_def store_insert_rows_json_def)
  have l: "inserted_rows table_ref_labels (trace ?w') = ?lr"
    using table_refs_distinct
    by (simp only: s insert_rows_both_return [OF i1 i2])
       (simp add: inserted_rows_append empty_world_def)
  have t: "inserted_rows table_ref_transcript (trace ?w') = ?tr"
    using table_refs_distinct
    by (simp only: s insert_rows_both_return [OF i1 i2])
       (simp add: inserted_rows_append empty_world_def)
  have c1: "length (inserted_rows table_ref_labels (trace ?w')) = 4"
    by (simp only: l) (simp add: sample_label_results_def)
  have c2: "length (inserted_rows table_ref_transcript (trace ?w')) = 2"
    by (simp only: t) (simp add: sample_speech_results_def)
  have e: "trace empty_world = []"
    by (simp add: empty_world_def)
  have "\<exists>file_name.
      CHR ''/'' \<notin> set file_name
    \<and> list_all (\<lambda>r. map_of r ''file_name'' = Some (JString file_name)
                     \<and> map_of r ''file_uri'' = Some (JString ?uri))
        (inserted_rows table_ref_labels (trace ?w'))
    \<and> list_all (\<lambda>r. map_of r ''file_name'' = Some (JString file_name))
        (inserted_rows table_ref_transcript (trace ?w'))"
    using inserted_rows_file_name
      [where env = ?env and video_uri = ?uri
         and results = "[sample_label_results, sample_speech_results]" and w = empty_world]
  proof (elim exE conjE)
    fix file_name new_labels new_transcripts
    assume n: "CHR ''/'' \<notin> set file_name"
      and a: "inserted_rows table_ref_labels (trace ?w')
                = inserted_rows table_ref_labels (trace empty_world) @ new_labels"
      and b: "inserted_rows table_ref_transcript (trace ?w')
                = inserted_rows table_ref_transcript (trace empty_world) @ new_transcripts"
      and p: "\<forall>r\<in>set new_labels.
                map_of r ''file_name'' = Some (JString file_name)
              \<and> map_of r ''file_uri'' = Some (JString ?uri)"
      and q: "\<forall>r\<in>set new_transcripts. map_of r ''file_name'' = Some (JString file_name)"
    from a have a': "inserted_rows table_ref_labels (trace ?w') = new_labels"
      by (simp add: e)
    from b have b': "inserted_rows table_ref_transcript (trace ?w') = new_transcripts"
      by (simp add: e)
    have p': "list_all (\<lambda>r. map_of r ''file_name'' = Some (JString file_name)
                     \<and> map_of r ''file_uri'' = Some (JString ?uri))
        (inserted_rows table_ref_labels (trace ?w'))"
      using p by (simp only: a' list_all_iff)
    have q': "list_all (\<lambda>r. map_of r ''file_name'' = Some (JString file_name))
        (inserted_rows table_ref_transcript (trace ?w'))"
      using q by (simp only: b' list_all_iff)
    show ?thesis
      by (rule exI [of _ file_name], intro conjI) (rule n p' q')+
  qed
  then show ?thesis
    using c1 c2 by (intro conjI)
qed

section \<open>Provisioning the tables\<close>

lemma creates_append: "creates tref (xs @ ys) = creates tref xs + creates tref ys"
  by (induction tref xs rule: creates.induct) simp_all

lemma get_or_create_found:
  assumes "get_table env tref (store w) = (Inr u, s1)"
  shows "get_or_create_table env tref sch w =
     (Inr (),
      w\<lparr>trace := trace w @
           [GetTable tref,
            Stdout (''Table '' @ table_id tref @ '' already exists. Skipping creation.'')],
        store := s1\<rparr>)"
  using assms by (simp add: get_or_create_table_def call_get_table_def py_print_def)

lemma get_or_create_created:
  assumes "get_table env tref (store w) = (Inl e, s1)" and "is_NotFound e"
    and "create_table env tref sch s1 = (Inr created_id, s2)"
  shows "get_or_create_table env tref sch w =
     (Inr (),
      w\<lparr>trace := trace w @
           [GetTable tref, CreateTable tref sch,
            Stdout (''Table '' @ created_id @ '' created.'')],
        store := s2\<rparr>)"
  using assms
  by (simp add: get_or_create_table_def call_get_table_def call_create_table_def py_print_def)

lemma get_or_create_create_raises:
  assumes "get_table env tref (store w) = (Inl e, s1)" and "is_NotFound e"
    and "create_table env tref sch s1 = (Inl e2, s2)"
  shows "get_or_create_table env tref sch w =
     (Inl e2, w\<lparr>trace := trace w @ [GetTable tref, CreateTable tref sch], store := s2\<rparr>)"
  using assms
  by (simp add: get_or_create_table_def call_get_table_def call_create_table_def py_print_def)

lemma get_or_create_propagates:
  assumes "get_table env tref (store w) = (Inl e, s1)" and "\<not> is_NotFound e"
  shows "get_or_create_table env tref sch w =
     (Inl e, w\<lparr>trace := trace w @ [GetTable tref], store := s1\<rparr>)"
  using assms by (simp add: get_or_create_table_def call_get_table_def)

lemma get_or_create_creates:
  "creates tref (trace (snd (get_or_create_table env tref sch w))) =
     creates tref (trace w)
       + (case fst (get_table env tref (store w)) of
            Inl e \<Rightarrow> if is_NotFound e then 1 else 0
          | Inr u \<Rightarrow> 0)"
proof (cases "get_table env tref (store w)")
  case (Pair r s1)
  show ?thesis
  proof (cases r)
    case (Inr u)
    with Pair have g: "get_table env tref (store w) = (Inr u, s1)" by simp
    show ?thesis
      by (simp add: get_or_create_found [OF g] g creates_append)
  next
    case (Inl e)
    with Pair have g: "get_table env tref (store w) = (Inl e, s1)" by simp
    show ?thesis
    proof (cases "is_NotFound e")
      case False
      then show ?thesis
        by (simp add: get_or_create_propagates [OF g] g creates_append)
    next
      case True
      show ?thesis
      proof (cases "create_table env tref sch s1")
        case (Pair r2 s2)
        then show ?thesis
          using True
          by (cases r2)
             (simp_all add: get_or_create_created [OF g True]
                get_or_create_create_raises [OF g True] g creates_append)
      qed
    qed
  qed
qed

lemma create_bigquery_tables_seq:
  assumes "bigquery_Client env = Inr ()"
  shows "create_bigquery_tables env w =
     (case get_or_create_table env table_ref_labels schema_labels
             (w\<lparr>trace := trace w @ [BigqueryClient]\<rparr>) of
        (Inl e, w2) \<Rightarrow> (Inl e, w2)
      | (Inr u, w2) \<Rightarrow> get_or_create_table env table_ref_transcript schema_transcript w2)"
  using assms by (simp add: create_bigquery_tables_def call_bigquery_Client_def)

text \<open>
  C6. For a table, the provisioner fetches the table's metadata; when the fetch succeeds
  it makes no create call and logs that the table already exists; when the fetch raises
  NotFound, and only then, it makes one create call with the schema given, and logs the
  creation when that call returns; any other error of the fetch is returned to the caller
  with no create call. \<open>create_bigquery_tables\<close> does this for the labels table with
  \<open>schema_labels\<close> and then for the transcript table with \<open>schema_transcript\<close>, and an
  error from the first ends the call.
\<close>

theorem provisioner_creates_on_not_found_only:
  "(get_table env tref (store w) = (Inr u, s1) \<longrightarrow>
      get_or_create_table env tref sch w =
        (Inr (),
         w\<lparr>trace := trace w @
              [GetTable tref,
               Stdout (''Table '' @ table_id tref @ '' already exists. Skipping creation.'')],
           store := s1\<rparr>))
   \<and> (get_table env tref (store w) = (Inl e, s1) \<and> is_NotFound e
        \<and> create_table env tref sch s1 = (Inr created_id, s2) \<longrightarrow>
      get_or_create_table env tref sch w =
        (Inr (),
         w\<lparr>trace := trace w @
              [GetTable tref, CreateTable tref sch,
               Stdout (''Table '' @ created_id @ '' created.'')],
           store := s2\<rparr>))
   \<and> (get_table env tref (store w) = (Inl e, s1) \<and> is_NotFound e
        \<and> create_table env tref sch s1 = (Inl e2, s2) \<longrightarrow>
      get_or_create_table env tref sch w =
        (Inl e2, w\<lparr>trace := trace w @ [GetTable tref, CreateTable tref sch], store := s2\<rparr>))
   \<and> (get_table env tref (store w) = (Inl e, s1) \<and> \<not> is_NotFound e \<longrightarrow>
      get_or_create_table env tref sch w =
        (Inl e, w\<lparr>trace := trace w @ [GetTable tref], store := s1\<rparr>))
   \<and> creates tref (trace (snd (get_or_create_table env tref sch w))) =
       creates tref (trace w)
         + (case fst (get_table env tref (store w)) of
              Inl e \<Rightarrow> if is_NotFound e then 1 else 0
            | Inr u \<Rightarrow> 0)
   \<and> (bigquery_Client env = Inr () \<longrightarrow>
      create_bigquery_tables env w =
        (case get_or_create_table env table_ref_labels schema_labels
                (w\<lparr>trace := trace w @ [BigqueryClient]\<rparr>) of
           (Inl e, w2) \<Rightarrow> (Inl e, w2)
         | (Inr u, w2) \<Rightarrow> get_or_create_table env table_ref_transcript schema_transcript w2))"
  by (intro conjI impI)
     (simp_all add: get_or_create_found get_or_create_created get_or_create_create_raises
        get_or_create_propagates get_or_create_creates create_bigquery_tables_seq)

theorem provisioner_creates_on_not_found_only_witness:
  "get_or_create_table (sample_env (\<lambda>r. Inr []) (\<lambda>t. None) (\<lambda>t. []))
      table_ref_labels schema_labels (empty_world\<lparr>store := {table_ref_labels}\<rparr>) =
     (Inr (),
      empty_world\<lparr>trace :=
          [GetTable table_ref_labels,
           Stdout ''Table annotation_labels already exists. Skipping creation.''],
        store := {table_ref_labels}\<rparr>)
   \<and> get_or_create_table (sample_env (\<lambda>r. Inr []) (\<lambda>t. None) (\<lambda>t. []))
      table_ref_labels schema_labels empty_world =
     (Inr (),
      empty_world\<lparr>trace :=
          [GetTable table_ref_labels, CreateTable table_ref_labels schema_labels,
           Stdout ''Table annotation_labels created.''],
        store := {table_ref_labels}\<rparr>)
   \<and> get_or_create_table
      ((sample_env (\<lambda>r. Inr []) (\<lambda>t. None) (\<lambda>t. []))
         \<lparr>create_table := \<lambda>t sch s. (Inl (GoogleCloudError ''Forbidden''), s)\<rparr>)
      table_ref_labels schema_labels empty_world =
     (Inl (GoogleCloudError ''Forbidden''),
      empty_world\<lparr>trace :=
          [GetTable table_ref_labels, CreateTable table_ref_labels schema_labels],
        store := {}\<rparr>)
   \<and> get_or_create_table
      ((sample_env (\<lambda>r. Inr []) (\<lambda>t. None) (\<lambda>t. []))
         \<lparr>get_table := \<lambda>t s. (Inl (GoogleCloudError ''Forbidden''), s)\<rparr>)
      table_ref_labels schema_labels empty_world =
     (Inl (GoogleCloudError ''Forbidden''),
      empty_world\<lparr>trace := [GetTable table_ref_labels], store := {}\<rparr>)
   \<and> create_bigquery_tables (sample_env (\<lambda>r. Inr []) (\<lambda>t. None) (\<lambda>t. [])) empty_world =
     (case get_or_create_table (sample_env (\<lambda>r. Inr []) (\<lambda>t. None) (\<lambda>t. []))
             table_ref_labels schema_labels
             (empty_world\<lparr>trace := trace empty_world @ [BigqueryClient]\<rparr>) of
        (Inl e, w2) \<Rightarrow> (Inl e, w2)
      | (Inr u, w2) \<Rightarrow>
          get_or_create_table (sample_env (\<lambda>r. Inr []) (\<lambda>t. None) (\<lambda>t. []))
            table_ref_transcript schema_transcript w2)"
proof -
  let ?E = "sample_env (\<lambda>r. Inr []) (\<lambda>t. None) (\<lambda>t. [])"
  let ?EC = "?E\<lparr>create_table := \<lambda>t sch s. (Inl (GoogleCloudError ''Forbidden''), s)\<rparr>"
  let ?EF = "?E\<lparr>get_table := \<lambda>t s. (Inl (GoogleCloudError ''Forbidden''), s)\<rparr>"
  let ?L = table_ref_labels
  let ?W = "empty_world\<lparr>store := {?L}\<rparr>"
  have tid: "table_id ?L = ''annotation_labels''"
    by (simp add: table_ref_labels_def TABLE_ID_LABELS_def)
  have e: "trace empty_world = []" "store empty_world = {}"
    by (simp_all add: empty_world_def)
  \<comment> \<open>the table is found\<close>
  have g1: "get_table ?E ?L (store ?W) = (Inr (), {?L})"
    by (simp add: sample_env_def store_get_table_def)
  have c1: "get_or_create_table ?E ?L schema_labels ?W =
     (Inr (),
      empty_world\<lparr>trace :=
          [GetTable ?L, Stdout ''Table annotation_labels already exists. Skipping creation.''],
        store := {?L}\<rparr>)"
    using provisioner_creates_on_not_found_only
      [where env = ?E and tref = ?L and sch = schema_labels and w = ?W and u = "()"
         and ?s1.0 = "{?L}", THEN conjunct1, THEN mp, OF g1]
    by (simp add: tid e)
  \<comment> \<open>the table is not found and is created\<close>
  have g2: "get_table ?E ?L (store empty_world)
              = (Inl (NotFound ''annotation_labels''), {})
            \<and> is_NotFound (NotFound ''annotation_labels'')
            \<and> create_table ?E ?L schema_labels {} = (Inr ''annotation_labels'', {?L})"
    by (simp add: sample_env_def store_get_table_def store_create_table_def e tid)
  have c2: "get_or_create_table ?E ?L schema_labels empty_world =
     (Inr (),
      empty_world\<lparr>trace :=
          [GetTable ?L, CreateTable ?L schema_labels, Stdout ''Table annotation_labels created.''],
        store := {?L}\<rparr>)"
    using provisioner_creates_on_not_found_only
      [where env = ?E and tref = ?L and sch = schema_labels and w = empty_world
         and e = "NotFound ''annotation_labels''" and ?s1.0 = "{}"
         and created_id = "''annotation_labels''" and ?s2.0 = "{?L}",
       THEN conjunct2, THEN conjunct1, THEN mp, OF g2]
    by (simp add: e)
  \<comment> \<open>the table is not found and the create call raises\<close>
  have g3: "get_table ?EC ?L (store empty_world)
              = (Inl (NotFound ''annotation_labels''), {})
            \<and> is_NotFound (NotFound ''annotation_labels'')
            \<and> create_table ?EC ?L schema_labels {}
              = (Inl (GoogleCloudError ''Forbidden''), {})"
    by (simp add: sample_env_def store_get_table_def e tid)
  have c3: "get_or_create_table ?EC ?L schema_labels empty_world =
     (Inl (GoogleCloudError ''Forbidden''),
      empty_world\<lparr>trace := [GetTable ?L, CreateTable ?L schema_labels], store := {}\<rparr>)"
    using provisioner_creates_on_not_found_only
      [where env = ?EC and tref = ?L and sch = schema_labels and w = empty_world
         and e = "NotFound ''annotation_labels''" and ?s1.0 = "{}"
         and ?e2.0 = "GoogleCloudError ''Forbidden''" and ?s2.0 = "{}",
       THEN conjunct2, THEN conjunct2, THEN conjunct1, THEN mp, OF g3]
    by (simp add: e)
  \<comment> \<open>the fetch raises another error\<close>
  have g4: "get_table ?EF ?L (store empty_world) = (Inl (GoogleCloudError ''Forbidden''), {})
            \<and> \<not> is_NotFound (GoogleCloudError ''Forbidden'')"
    by (simp add: e)
  have c4: "get_or_create_table ?EF ?L schema_labels empty_world =
     (Inl (GoogleCloudError ''Forbidden''),
      empty_world\<lparr>trace := [GetTable ?L], store := {}\<rparr>)"
    using provisioner_creates_on_not_found_only
      [where env = ?EF and tref = ?L and sch = schema_labels and w = empty_world
         and e = "GoogleCloudError ''Forbidden''" and ?s1.0 = "{}",
       THEN conjunct2, THEN conjunct2, THEN conjunct2, THEN conjunct1, THEN mp, OF g4]
    by (simp add: e)
  \<comment> \<open>the two tables in sequence\<close>
  have g5: "bigquery_Client ?E = Inr ()"
    by (simp add: sample_env_def)
  note c5 = provisioner_creates_on_not_found_only
      [where env = ?E and w = empty_world,
       THEN conjunct2, THEN conjunct2, THEN conjunct2, THEN conjunct2, THEN conjunct2,
       THEN mp, OF g5]
  show ?thesis
    by (intro conjI) (rule c1 c2 c3 c4 c5)+
qed

section \<open>Provisioning twice\<close>

text \<open>
  C7. Over the store of tables, started with neither table present, the first call of
  \<open>create_bigquery_tables\<close> makes exactly one create call for each table, and a second
  call makes none: it finds both tables and logs that they already exist. Over the two
  calls each table is created once, and the second call leaves the store as it was.
\<close>

theorem provisioning_idempotent:
  assumes "get_table env = store_get_table"
    and "create_table env = store_create_table"
    and "bigquery_Client env = Inr ()"
    and "table_ref_labels \<notin> store w"
    and "table_ref_transcript \<notin> store w"
  shows "fst (create_bigquery_tables env w) = Inr ()
    \<and> trace (snd (create_bigquery_tables env w)) =
        trace w @
          [BigqueryClient,
           GetTable table_ref_labels,
           CreateTable table_ref_labels schema_labels,
           Stdout ''Table annotation_labels created.'',
           GetTable table_ref_transcript,
           CreateTable table_ref_transcript schema_transcript,
           Stdout ''Table annotation_transcripts created.'']
    \<and> store (snd (create_bigquery_tables env w)) =
        insert table_ref_transcript (insert table_ref_labels (store w))
    \<and> fst (create_bigquery_tables env (snd (create_bigquery_tables env w))) = Inr ()
    \<and> trace (snd (create_bigquery_tables env (snd (create_bigquery_tables env w)))) =
        trace (snd (create_bigquery_tables env w)) @
          [BigqueryClient,
           GetTable table_ref_labels,
           Stdout ''Table annotation_labels already exists. Skipping creation.'',
           GetTable table_ref_transcript,
           Stdout ''Table annotation_transcripts already exists. Skipping creation.'']
    \<and> store (snd (create_bigquery_tables env (snd (create_bigquery_tables env w)))) =
        store (snd (create_bigquery_tables env w))
    \<and> creates table_ref_labels
        (trace (snd (create_bigquery_tables env (snd (create_bigquery_tables env w)))))
       = creates table_ref_labels (trace w) + 1
    \<and> creates table_ref_transcript
        (trace (snd (create_bigquery_tables env (snd (create_bigquery_tables env w)))))
       = creates table_ref_transcript (trace w) + 1"
proof -
  let ?L = table_ref_labels
  let ?T = table_ref_transcript
  let ?w1 = "w\<lparr>trace := trace w @
          [BigqueryClient, GetTable ?L, CreateTable ?L schema_labels,
           Stdout ''Table annotation_labels created.'',
           GetTable ?T, CreateTable ?T schema_transcript,
           Stdout ''Table annotation_transcripts created.''],
        store := insert ?T (insert ?L (store w))\<rparr>"
  let ?w2 = "?w1\<lparr>trace := trace ?w1 @
          [BigqueryClient, GetTable ?L,
           Stdout ''Table annotation_labels already exists. Skipping creation.'',
           GetTable ?T,
           Stdout ''Table annotation_transcripts already exists. Skipping creation.'']\<rparr>"
  have ids: "table_id ?L = ''annotation_labels''" "table_id ?T = ''annotation_transcripts''"
    by (simp_all add: table_ref_labels_def table_ref_transcript_def TABLE_ID_LABELS_def
        TABLE_ID_TRANSCRIPT_def)
  have ne: "?T \<noteq> ?L"
    using table_refs_distinct by simp
  note defs = create_bigquery_tables_def call_bigquery_Client_def get_or_create_table_def
    call_get_table_def call_create_table_def py_print_def store_get_table_def
    store_create_table_def
  have first: "create_bigquery_tables env w = (Inr (), ?w1)"
    using assms ne by (simp add: defs ids)
  have second: "create_bigquery_tables env ?w1 = (Inr (), ?w2)"
    using assms(1-3) by (simp add: defs ids)
  have c: "creates ?L (trace ?w2) = creates ?L (trace w) + 1"
      "creates ?T (trace ?w2) = creates ?T (trace w) + 1"
    using ne by (simp_all add: creates_append)
  show ?thesis
    unfolding first snd_conv fst_conv second
    using c by simp
qed

theorem provisioning_idempotent_witness:
  "get_table (sample_env (\<lambda>r. Inr []) (\<lambda>t. None) (\<lambda>t. [])) = store_get_table
   \<and> create_table (sample_env (\<lambda>r. Inr []) (\<lambda>t. None) (\<lambda>t. [])) = store_create_table
   \<and> bigquery_Client (sample_env (\<lambda>r. Inr []) (\<lambda>t. None) (\<lambda>t. [])) = Inr ()
   \<and> table_ref_labels \<notin> store empty_world
   \<and> table_ref_transcript \<notin> store empty_world
   \<and> store_calls (trace (snd (create_bigquery_tables
        (sample_env (\<lambda>r. Inr []) (\<lambda>t. None) (\<lambda>t. []))
        (snd (create_bigquery_tables
           (sample_env (\<lambda>r. Inr []) (\<lambda>t. None) (\<lambda>t. [])) empty_world))))) =
       [BigqueryClient,
        GetTable table_ref_labels, CreateTable table_ref_labels schema_labels,
        GetTable table_ref_transcript, CreateTable table_ref_transcript schema_transcript,
        BigqueryClient,
        GetTable table_ref_labels, GetTable table_ref_transcript]
   \<and> creates table_ref_labels (trace (snd (create_bigquery_tables
        (sample_env (\<lambda>r. Inr []) (\<lambda>t. None) (\<lambda>t. []))
        (snd (create_bigquery_tables
           (sample_env (\<lambda>r. Inr []) (\<lambda>t. None) (\<lambda>t. [])) empty_world))))) = 1
   \<and> creates table_ref_transcript (trace (snd (create_bigquery_tables
        (sample_env (\<lambda>r. Inr []) (\<lambda>t. None) (\<lambda>t. []))
        (snd (create_bigquery_tables
           (sample_env (\<lambda>r. Inr []) (\<lambda>t. None) (\<lambda>t. [])) empty_world))))) = 1"
proof -
  let ?E = "sample_env (\<lambda>r. Inr []) (\<lambda>t. None) (\<lambda>t. [])"
  have h1: "get_table ?E = store_get_table"
    and h2: "create_table ?E = store_create_table"
    and h3: "bigquery_Client ?E = Inr ()"
    by (simp_all add: sample_env_def)
  have h4: "table_ref_labels \<notin> store empty_world"
    and h5: "table_ref_transcript \<notin> store empty_world"
    by (simp_all add: empty_world_def)
  note t = provisioning_idempotent [OF h1 h2 h3 h4 h5]
  have e: "trace empty_world = []"
    by (simp add: empty_world_def)
  have t1: "trace (snd (create_bigquery_tables ?E empty_world)) =
        trace empty_world @
          [BigqueryClient,
           GetTable table_ref_labels,
           CreateTable table_ref_labels schema_labels,
           Stdout ''Table annotation_labels created.'',
           GetTable table_ref_transcript,
           CreateTable table_ref_transcript schema_transcript,
           Stdout ''Table annotation_transcripts created.'']"
    using t by (elim conjE)
  have t2: "trace (snd (create_bigquery_tables ?E (snd (create_bigquery_tables ?E empty_world)))) =
        trace (snd (create_bigquery_tables ?E empty_world)) @
          [BigqueryClient,
           GetTable table_ref_labels,
           Stdout ''Table annotation_labels already exists. Skipping creation.'',
           GetTable table_ref_transcript,
           Stdout ''Table annotation_transcripts already exists. Skipping creation.'']"
    using t by (elim conjE)
  have c1: "store_calls (trace (snd (create_bigquery_tables ?E
               (snd (create_bigquery_tables ?E empty_world))))) =
       [BigqueryClient,
        GetTable table_ref_labels, CreateTable table_ref_labels schema_labels,
        GetTable table_ref_transcript, CreateTable table_ref_transcript schema_transcript,
        BigqueryClient,
        GetTable table_ref_labels, GetTable table_ref_transcript]"
    by (simp only: t2 t1 e) simp
  have c2: "creates table_ref_labels (trace (snd (create_bigquery_tables ?E
               (snd (create_bigquery_tables ?E empty_world))))) = 1"
    using t [THEN conjunct2, THEN conjunct2, THEN conjunct2, THEN conjunct2, THEN conjunct2,
             THEN conjunct2, THEN conjunct1]
    by (simp add: e)
  have c3: "creates table_ref_transcript (trace (snd (create_bigquery_tables ?E
               (snd (create_bigquery_tables ?E empty_world))))) = 1"
    using t [THEN conjunct2, THEN conjunct2, THEN conjunct2, THEN conjunct2, THEN conjunct2,
             THEN conjunct2, THEN conjunct2]
    by (simp add: e)
  show ?thesis
    by (intro conjI) (rule h1 h2 h3 h4 h5 c1 c2 c3)+
qed

section \<open>A failure of the annotation service\<close>

lemma store_calls_append: "store_calls (xs @ ys) = store_calls xs @ store_calls ys"
  by (induction xs rule: store_calls.induct) simp_all

lemma build_request_keys:
  assumes "build_request event = Inr req"
  shows "\<exists>bucket name. py_getitem event ''bucket'' = Inr bucket
           \<and> py_getitem event ''name'' = Inr name"
  using assms by (auto simp: build_request_def split: sum.splits)

lemma analyze_video_result:
  assumes "build_request event = Inr req"
  shows "analyze_video env event w =
     (annotate_video env req,
      w\<lparr>trace := trace w @
           [Stdout (repr_event env event),
            Stdout (''Processing video '' @ [CHR 0x22] @ input_uri req @ [CHR 0x22] @ ''...''),
            AnnotateVideo req]\<rparr>)"
  using assms by (simp add: analyze_video_def py_print_def call_annotate_video_def)

text \<open>
  C8. When the call of the annotation service raises, \<open>process_video\<close> returns that error
  to its caller; all it has done is to print the event and the "Processing video" line and
  to call the service: no line of either report is printed, no call is made to the store
  (no client, no table fetch or create, no append), and the store is unchanged.
\<close>

theorem annotation_failure_aborts:
  assumes "build_request event = Inr req"
    and "annotate_video env req = Inl e"
  shows "process_video env event w =
      (Inl e,
       w\<lparr>trace := trace w @
            [Stdout (repr_event env event),
             Stdout (''Processing video '' @ [CHR 0x22] @ input_uri req @ [CHR 0x22] @ ''...''),
             AnnotateVideo req]\<rparr>)
    \<and> store_calls (trace (snd (process_video env event w))) = store_calls (trace w)
    \<and> store (snd (process_video env event w)) = store w"
proof -
  from build_request_keys [OF assms(1)] obtain bucket name where
    k: "py_getitem event ''bucket'' = Inr bucket" "py_getitem event ''name'' = Inr name"
    by (elim exE conjE)
  have p: "process_video env event w =
      (Inl e,
       w\<lparr>trace := trace w @
            [Stdout (repr_event env event),
             Stdout (''Processing video '' @ [CHR 0x22] @ input_uri req @ [CHR 0x22] @ ''...''),
             AnnotateVideo req]\<rparr>)"
    by (simp add: process_video_def k analyze_video_result [OF assms(1)] assms(2))
  show ?thesis
    unfolding p by (simp add: store_calls_append)
qed

theorem annotation_failure_aborts_witness:
  "build_request sample_event =
     Inr \<lparr>req_features = features, input_uri = ''gs://b/clip.mp4'',
          output_uri = ''gs://outputbucket-cloud9/clip.json'',
          req_video_context = video_context\<rparr>
   \<and> annotate_video (sample_env (\<lambda>r. Inl (OtherException ''quota'')) (\<lambda>t. None) (\<lambda>t. []))
        \<lparr>req_features = features, input_uri = ''gs://b/clip.mp4'',
         output_uri = ''gs://outputbucket-cloud9/clip.json'',
         req_video_context = video_context\<rparr> = Inl (OtherException ''quota'')
   \<and> process_video (sample_env (\<lambda>r. Inl (OtherException ''quota'')) (\<lambda>t. None) (\<lambda>t. []))
        sample_event empty_world =
       (Inl (OtherException ''quota''),
        empty_world\<lparr>trace :=
          [Stdout ''event'',
           Stdout (''Processing video '' @ [CHR 0x22] @ ''gs://b/clip.mp4'' @ [CHR 0x22] @ ''...''),
           AnnotateVideo \<lparr>req_features = features, input_uri = ''gs://b/clip.mp4'',
             output_uri = ''gs://outputbucket-cloud9/clip.json'',
             req_video_context = video_context\<rparr>]\<rparr>)
   \<and> store_calls (trace (snd (process_video
        (sample_env (\<lambda>r. Inl (OtherException ''quota'')) (\<lambda>t. None) (\<lambda>t. []))
        sample_event empty_world))) = []"
proof -
  let ?E = "sample_env (\<lambda>r. Inl (OtherException ''quota'')) (\<lambda>t. None) (\<lambda>t. [])"
  let ?req = "\<lparr>req_features = features, input_uri = ''gs://b/clip.mp4'',
          output_uri = ''gs://outputbucket-cloud9/clip.json'',
          req_video_context = video_context\<rparr>"
  have h1: "build_request sample_event = Inr ?req"
    by (simp add: sample_event_def build_request_ok OUTPUT_BUCKET_def)
  have h2: "annotate_video ?E ?req = Inl (OtherException ''quota'')"
    by (simp add: sample_env_def)
  note t = annotation_failure_aborts [OF h1 h2, where w = empty_world]
  have e: "trace empty_world = []"
    by (simp add: empty_world_def)
  have c1: "process_video ?E sample_event empty_world =
       (Inl (OtherException ''quota''),
        empty_world\<lparr>trace :=
          [Stdout ''event'',
           Stdout (''Processing video '' @ [CHR 0x22] @ ''gs://b/clip.mp4'' @ [CHR 0x22] @ ''...''),
           AnnotateVideo ?req]\<rparr>)"
    using t [THEN conjunct1] by (simp add: e sample_env_def)
  have c2: "store_calls (trace (snd (process_video ?E sample_event empty_world))) = []"
    using t [THEN conjunct2, THEN conjunct1] by (simp add: e)
  show ?thesis
    by (intro conjI) (rule h1 h2 c1 c2)+
qed

section \<open>An exception of the store during the appends\<close>

lemma keep_transcriptions_alternatives:
  "keep_transcriptions mc ts = Inr kept \<Longrightarrow> \<forall>t\<in>set ts. alternatives t \<noteq> []"
proof (induction ts arbitrary: kept)
  case Nil
  show ?case by simp
next
  case (Cons t ts)
  from Cons.prems obtain keep kept' where
    k: "keep_transcription mc t = Inr keep"
    and r: "keep_transcriptions mc ts = Inr kept'"
    by (auto split: sum.splits)
  from k have "alternatives t \<noteq> []"
    by (auto simp: keep_transcription_def py_index_def split: sum.splits)
  with Cons.IH [OF r] show ?case by simp
qed

lemma print_video_speech_alternatives:
  assumes "print_video_speech env results mc w = (Inr u, w')"
  shows "\<forall>t\<in>set (speech_transcriptions results). alternatives t \<noteq> []"
proof (cases "keep_transcriptions mc (speech_transcriptions results)")
  case (Inl e)
  with assms show ?thesis
    by (simp add: print_video_speech_def)
next
  case (Inr kept)
  then show ?thesis
    by (rule keep_transcriptions_alternatives)
qed

lemma build_request_input_uri:
  assumes "py_getitem event ''bucket'' = Inr bucket"
    and "py_getitem event ''name'' = Inr name"
    and "build_request event = Inr req"
  shows "input_uri req = ''gs://'' @ bucket @ ''/'' @ name"
  using assms by (auto simp: build_request_def first_piece)

text \<open>
  When the steps before the appends succeed, \<open>process_video\<close> ends with the \<open>try\<close> block
  of \<open>store_results_in_bigquery\<close>, run on the rows of the two tables.
\<close>

lemma process_video_reaches_appends:
  assumes req: "build_request event = Inr req"
    and ann: "annotate_video env req = Inr (rl # rt # more_results)"
    and labels: "print_video_labels env rl (snd (analyze_video env event w)) = (Inr (), w2)"
    and speech: "print_video_speech env rt default_min_confidence w2 = (Inr (), w3)"
    and prov: "create_bigquery_tables env w3 = (Inr (), w4)"
  shows "process_video env event w =
     insert_rows env
       (label_rows (last (split_char (CHR ''/'') (input_uri req))) (input_uri req)
          (segment_label_annotations rl) [])
       (map (\<lambda>t. transcript_row (last (split_char (CHR ''/'') (input_uri req)))
                 (hd (alternatives t)))
          (speech_transcriptions rt))
       (w4\<lparr>trace := trace w4 @ [BigqueryClient]\<rparr>)"
proof -
  from build_request_keys [OF req] obtain bucket name where
    k: "py_getitem event ''bucket'' = Inr bucket" "py_getitem event ''name'' = Inr name"
    by (elim exE conjE)
  have uri: "''gs://'' @ bucket @ ''/'' @ name = input_uri req"
    using build_request_input_uri [OF k req] by simp
  let ?results = "rl # rt # more_results"
  obtain w1 where a: "analyze_video env event w = (Inr ?results, w1)"
    by (simp add: analyze_video_result [OF req] ann)
  have l: "print_video_labels env rl w1 = (Inr (), w2)"
    using labels by (simp add: a)
  have alts: "\<forall>t\<in>set (speech_transcriptions rt). alternatives t \<noteq> []"
    using speech by (rule print_video_speech_alternatives)
  have client: "bigquery_Client env = Inr ()"
  proof (cases "bigquery_Client env")
    case (Inl e)
    then have "fst (create_bigquery_tables env w3) = Inl e"
      by (simp add: create_bigquery_tables_def call_bigquery_Client_def)
    with prov show ?thesis by simp
  next
    case (Inr u)
    then show ?thesis by simp
  qed
  have "process_video env event w =
      store_results_in_bigquery env (''gs://'' @ bucket @ ''/'' @ name) ?results w4"
    by (simp add: process_video_def k a l speech prov py_index_first py_index_second)
  then show ?thesis
    by (simp only: uri store_results_rows [OF client alts] label_rows_append append_Nil)
qed

lemma process_video_label_append_raises:
  assumes "build_request event = Inr req"
    and "annotate_video env req = Inr (rl # rt # more_results)"
    and "print_video_labels env rl (snd (analyze_video env event w)) = (Inr (), w2)"
    and "print_video_speech env rt default_min_confidence w2 = (Inr (), w3)"
    and "create_bigquery_tables env w3 = (Inr (), w4)"
    and i: "insert_rows_json env table_ref_labels
              (label_rows (last (split_char (CHR ''/'') (input_uri req))) (input_uri req)
                 (segment_label_annotations rl) [])
              (store w4) = (Inl e, s1)"
  shows "process_video env event w =
     (if is_GoogleCloudError e then Inr () else Inl e,
      w4\<lparr>trace := trace w4 @ BigqueryClient
            # InsertRowsJson table_ref_labels
                (label_rows (last (split_char (CHR ''/'') (input_uri req))) (input_uri req)
                   (segment_label_annotations rl) [])
            # (if is_GoogleCloudError e
               then [Stdout (''Error inserting rows into BigQuery: '' @ str_error env e)]
               else []),
         store := s1\<rparr>)"
proof -
  let ?lr = "label_rows (last (split_char (CHR ''/'') (input_uri req))) (input_uri req)
               (segment_label_annotations rl) []"
  let ?w5 = "w4\<lparr>trace := trace w4 @ [BigqueryClient]\<rparr>"
  have i': "insert_rows_json env table_ref_labels ?lr (store ?w5) = (Inl e, s1)"
    using i by simp
  show ?thesis
    by (simp only: process_video_reaches_appends [OF assms(1-5)]
        insert_rows_labels_raise [OF i']) simp
qed

lemma process_video_transcript_append_raises:
  assumes "build_request event = Inr req"
    and "annotate_video env req = Inr (rl # rt # more_results)"
    and "print_video_labels env rl (snd (analyze_video env event w)) = (Inr (), w2)"
    and "print_video_speech env rt default_min_confidence w2 = (Inr (), w3)"
    and "create_bigquery_tables env w3 = (Inr (), w4)"
    and i: "insert_rows_json env table_ref_labels
              (label_rows (last (split_char (CHR ''/'') (input_uri req))) (input_uri req)
                 (segment_label_annotations rl) [])
              (store w4) = (Inr errs, s1)"
    and j: "insert_rows_json env table_ref_transcript
              (map (\<lambda>t. transcript_row (last (split_char (CHR ''/'') (input_uri req)))
                        (hd (alternatives t)))
                 (speech_transcriptions rt))
              s1 = (Inl e, s2)"
  shows "process_video env event w =
     (if is_GoogleCloudError e then Inr () else Inl e,
      w4\<lparr>trace := trace w4 @
            [BigqueryClient,
             InsertRowsJson table_ref_labels
               (label_rows (last (split_char (CHR ''/'') (input_uri req))) (input_uri req)
                  (segment_label_annotations rl) []),
             Stdout (if errs = [] then ''New rows have been added to the 'labels' table.''
                     else ''Encountered errors while inserting rows into 'labels' table: ''
                            @ repr_errors env errs),
             InsertRowsJson table_ref_transcript
               (map (\<lambda>t. transcript_row (last (split_char (CHR ''/'') (input_uri req)))
                         (hd (alternatives t)))
                  (speech_transcriptions rt))]
            @ (if is_GoogleCloudError e
               then [Stdout (''Error inserting rows into BigQuery: '' @ str_error env e)]
               else []),
         store := s2\<rparr>)"
proof -
  let ?lr = "label_rows (last (split_char (CHR ''/'') (input_uri req))) (input_uri req)
               (segment_label_annotations rl) []"
  let ?w5 = "w4\<lparr>trace := trace w4 @ [BigqueryClient]\<rparr>"
  have i': "insert_rows_json env table_ref_labels ?lr (store ?w5) = (Inr errs, s1)"
    using i by simp
  show ?thesis
    by (simp only: process_video_reaches_appends [OF assms(1-5)]
        insert_rows_transcript_raise [OF i' j]) simp
qed

text \<open>The run on the sample event, up to the appends.\<close>

lemma sample_build_request: "build_request sample_event = Inr sample_request"
  by (simp add: sample_event_def sample_request_def build_request_ok OUTPUT_BUCKET_def)

lemma sample_analyze_video:
  "analyze_video
     (sample_env (\<lambda>r. Inr [sample_label_results, sample_speech_results]) x errs)
     sample_event empty_world =
   (Inr [sample_label_results, sample_speech_results],
    empty_world\<lparr>trace := take 3 sample_run_prefix\<rparr>)"
  by (simp add: analyze_video_result [OF sample_build_request] sample_env_def
      sample_run_prefix_def sample_request_def empty_world_def)

lemma sample_print_video_labels:
  "print_video_labels
     (sample_env (\<lambda>r. Inr [sample_label_results, sample_speech_results]) x errs)
     sample_label_results (empty_world\<lparr>trace := take 3 sample_run_prefix\<rparr>) =
   (Inr (), empty_world\<lparr>trace := take 8 sample_run_prefix\<rparr>)"
  by (simp add: print_video_labels_def sorted_by_first_segment_confidence_def
      sorted_reverse_def first_segment_confidence_def py_index_def py_print_def
      label_line_def category_entities_to_str_def sample_label_results_def sample_env_def
      sample_run_prefix_def str_nat.simps empty_world_def Let_def)

lemma sample_print_video_speech:
  "print_video_speech
     (sample_env (\<lambda>r. Inr [sample_label_results, sample_speech_results]) x errs)
     sample_speech_results default_min_confidence
     (empty_world\<lparr>trace := take 8 sample_run_prefix\<rparr>) =
   (Inr (), empty_world\<lparr>trace := take 10 sample_run_prefix\<rparr>)"
  by (simp add: print_video_speech_def keep_transcription_def py_index_def py_print_def
      speech_line_def strip_def py_isspace_def default_min_confidence_def
      sample_speech_results_def sample_env_def sample_run_prefix_def str_nat.simps
      empty_world_def)

lemma sample_create_bigquery_tables:
  "create_bigquery_tables
     (sample_env (\<lambda>r. Inr [sample_label_results, sample_speech_results]) x errs)
     (empty_world\<lparr>trace := take 10 sample_run_prefix\<rparr>) =
   (Inr (),
    empty_world\<lparr>trace := sample_run_prefix,
      store := {table_ref_labels, table_ref_transcript}\<rparr>)"
proof -
  have ids: "table_id table_ref_labels = ''annotation_labels''"
      "table_id table_ref_transcript = ''annotation_transcripts''"
    by (simp_all add: table_ref_labels_def table_ref_transcript_def TABLE_ID_LABELS_def
        TABLE_ID_TRANSCRIPT_def)
  have ne: "table_ref_transcript \<noteq> table_ref_labels"
    using table_refs_distinct by simp
  show ?thesis
    using ne
    by (simp add: create_bigquery_tables_def call_bigquery_Client_def get_or_create_table_def
        call_get_table_def call_create_table_def py_print_def store_get_table_def
        store_create_table_def ids sample_env_def sample_run_prefix_def empty_world_def
        insert_commute)
qed

lemma sample_labels_after_analysis:
  "print_video_labels
     (sample_env (\<lambda>r. Inr [sample_label_results, sample_speech_results]) x errs)
     sample_label_results
     (snd (analyze_video
        (sample_env (\<lambda>r. Inr [sample_label_results, sample_speech_results]) x errs)
        sample_event empty_world)) =
   (Inr (), empty_world\<lparr>trace := take 8 sample_run_prefix\<rparr>)"
  by (simp only: sample_analyze_video snd_conv sample_print_video_labels)

lemma sample_annotate_video:
  "annotate_video
     (sample_env (\<lambda>r. Inr [sample_label_results, sample_speech_results]) x errs)
     sample_request = Inr [sample_label_results, sample_speech_results]"
  by (simp add: sample_env_def)

lemma sample_file_name:
  "input_uri sample_request = ''gs://b/clip.mp4''
   \<and> last (split_char (CHR ''/'') (input_uri sample_request)) = ''clip.mp4''"
  by (simp add: sample_request_def)

text \<open>
  C9, as stated, fails: a connectivity failure that the client library raises as an
  exception outside the class GoogleCloudError (here a RetryError) is not caught by the
  handler of the \<open>try\<close> block; on the sample event, after the two reports and the
  provisioning, the append of the label rows raises it, nothing is logged, and
  \<open>process_video\<close> returns the exception to its caller.
\<close>

theorem connectivity_failure_propagates:
  "insert_rows_json
      (sample_env (\<lambda>r. Inr [sample_label_results, sample_speech_results])
         (\<lambda>t. Some (OtherException ''RetryError'')) (\<lambda>t. []))
     = (\<lambda>tref rows s. (Inl (OtherException ''RetryError''), s))
   \<and> \<not> is_GoogleCloudError (OtherException ''RetryError'')
   \<and> process_video
        (sample_env (\<lambda>r. Inr [sample_label_results, sample_speech_results])
           (\<lambda>t. Some (OtherException ''RetryError'')) (\<lambda>t. []))
        sample_event empty_world =
       (Inl (OtherException ''RetryError''),
        empty_world\<lparr>trace := sample_run_prefix @
            [BigqueryClient,
             InsertRowsJson table_ref_labels
               (label_rows ''clip.mp4'' ''gs://b/clip.mp4''
                  (segment_label_annotations sample_label_results) [])],
          store := {table_ref_labels, table_ref_transcript}\<rparr>)"
proof -
  let ?E = "sample_env (\<lambda>r. Inr [sample_label_results, sample_speech_results])
              (\<lambda>t. Some (OtherException ''RetryError'')) (\<lambda>t. [])"
  let ?w4 = "empty_world\<lparr>trace := sample_run_prefix,
               store := {table_ref_labels, table_ref_transcript}\<rparr>"
  have c1: "insert_rows_json ?E = (\<lambda>tref rows s. (Inl (OtherException ''RetryError''), s))"
    by (simp add: sample_env_def store_insert_rows_json_def fun_eq_iff)
  have c2: "\<not> is_GoogleCloudError (OtherException ''RetryError'')"
    by simp
  have i: "insert_rows_json ?E table_ref_labels
             (label_rows (last (split_char (CHR ''/'') (input_uri sample_request)))
                (input_uri sample_request) (segment_label_annotations sample_label_results) [])
             (store ?w4)
           = (Inl (OtherException ''RetryError''), {table_ref_labels, table_ref_transcript})"
    by (simp add: c1)
  have c3: "process_video ?E sample_event empty_world =
       (Inl (OtherException ''RetryError''),
        empty_world\<lparr>trace := sample_run_prefix @
            [BigqueryClient,
             InsertRowsJson table_ref_labels
               (label_rows ''clip.mp4'' ''gs://b/clip.mp4''
                  (segment_label_annotations sample_label_results) [])],
          store := {table_ref_labels, table_ref_transcript}\<rparr>)"
    unfolding process_video_label_append_raises
      [OF sample_build_request sample_annotate_video sample_labels_after_analysis
          sample_print_video_speech sample_create_bigquery_tables i]
    by (simp add: sample_file_name)
  show ?thesis
    by (intro conjI) (rule c1 c2 c3)+
qed

text \<open>
  C9, amended. An exception raised by an append is caught and logged inside
  \<open>store_results_in_bigquery\<close> exactly when it is of class GoogleCloudError (as the
  authorization failure Forbidden is): when the steps of \<open>process_video\<close> before the
  appends have succeeded and the append of the label rows raises, and also when it returns
  and the append of the transcript rows raises, \<open>process_video\<close> has made the appends up to
  the one that raised, has printed the one line "Error inserting rows into BigQuery" and
  returns normally if the exception is a GoogleCloudError; if it is not, nothing is printed
  for it and \<open>process_video\<close> returns the exception to its caller.
\<close>

theorem append_exception_caught_by_class:
  assumes "build_request event = Inr req"
    and "annotate_video env req = Inr (rl # rt # more_results)"
    and "print_video_labels env rl (snd (analyze_video env event w)) = (Inr (), w2)"
    and "print_video_speech env rt default_min_confidence w2 = (Inr (), w3)"
    and "create_bigquery_tables env w3 = (Inr (), w4)"
  shows "(insert_rows_json env table_ref_labels
            (label_rows (last (split_char (CHR ''/'') (input_uri req))) (input_uri req)
               (segment_label_annotations rl) [])
            (store w4) = (Inl e, s1) \<longrightarrow>
      process_video env event w =
        (if is_GoogleCloudError e then Inr () else Inl e,
         w4\<lparr>trace := trace w4 @ BigqueryClient
               # InsertRowsJson table_ref_labels
                   (label_rows (last (split_char (CHR ''/'') (input_uri req))) (input_uri req)
                      (segment_label_annotations rl) [])
               # (if is_GoogleCloudError e
                  then [Stdout (''Error inserting rows into BigQuery: '' @ str_error env e)]
                  else []),
            store := s1\<rparr>))
   \<and> (insert_rows_json env table_ref_labels
            (label_rows (last (split_char (CHR ''/'') (input_uri req))) (input_uri req)
               (segment_label_annotations rl) [])
            (store w4) = (Inr errs, s1)
      \<and> insert_rows_json env table_ref_transcript
            (map (\<lambda>t. transcript_row (last (split_char (CHR ''/'') (input_uri req)))
                      (hd (alternatives t)))
               (speech_transcriptions rt))
            s1 = (Inl e, s2) \<longrightarrow>
      process_video env event w =
        (if is_GoogleCloudError e then Inr () else Inl e,
         w4\<lparr>trace := trace w4 @
               [BigqueryClient,
                InsertRowsJson table_ref_labels
                  (label_rows (last (split_char (CHR ''/'') (input_uri req))) (input_uri req)
                     (segment_label_annotations rl) []),
                Stdout (if errs = [] then ''New rows have been added to the 'labels' table.''
                        else ''Encountered errors while inserting rows into 'labels' table: ''
                               @ repr_errors env errs),
                InsertRowsJson table_ref_transcript
                  (map (\<lambda>t. transcript_row (last (split_char (CHR ''/'') (input_uri req)))
                            (hd (alternatives t)))
                     (speech_transcriptions rt))]
               @ (if is_GoogleCloudError e
                  then [Stdout (''Error inserting rows into BigQuery: '' @ str_error env e)]
                  else []),
            store := s2\<rparr>))"
proof (intro conjI impI)
  assume "insert_rows_json env table_ref_labels
            (label_rows (last (split_char (CHR ''/'') (input_uri req))) (input_uri req)
               (segment_label_annotations rl) [])
            (store w4) = (Inl e, s1)"
  with assms show "process_video env event w =
        (if is_GoogleCloudError e then Inr () else Inl e,
         w4\<lparr>trace := trace w4 @ BigqueryClient
               # InsertRowsJson table_ref_labels
                   (label_rows (last (split_char (CHR ''/'') (input_uri req))) (input_uri req)
                      (segment_label_annotations rl) [])
               # (if is_GoogleCloudError e
                  then [Stdout (''Error inserting rows into BigQuery: '' @ str_error env e)]
                  else []),
            store := s1\<rparr>)"
    by (rule process_video_label_append_raises)
next
  assume "insert_rows_json env table_ref_labels
            (label_rows (last (split_char (CHR ''/'') (input_uri req))) (input_uri req)
               (segment_label_annotations rl) [])
            (store w4) = (Inr errs, s1)
      \<and> insert_rows_json env table_ref_transcript
            (map (\<lambda>t. transcript_row (last (split_char (CHR ''/'') (input_uri req)))
                      (hd (alternatives t)))
               (speech_transcriptions rt))
            s1 = (Inl e, s2)"
  then have i: "insert_rows_json env table_ref_labels
            (label_rows (last (split_char (CHR ''/'') (input_uri req))) (input_uri req)
               (segment_label_annotations rl) [])
            (store w4) = (Inr errs, s1)"
    and j: "insert_rows_json env table_ref_transcript
            (map (\<lambda>t. transcript_row (last (split_char (CHR ''/'') (input_uri req)))
                      (hd (alternatives t)))
               (speech_transcriptions rt))
            s1 = (Inl e, s2)"
    by (rule conjunct1, rule conjunct2)
  from assms i j show "process_video env event w =
        (if is_GoogleCloudError e then Inr () else Inl e,
         w4\<lparr>trace := trace w4 @
               [BigqueryClient,
                InsertRowsJson table_ref_labels
                  (label_rows (last (split_char (CHR ''/'') (input_uri req))) (input_uri req)
                     (segment_label_annotations rl) []),
                Stdout (if errs = [] then ''New rows have been added to the 'labels' table.''
                        else ''Encountered errors while inserting rows into 'labels' table: ''
                               @ repr_errors env errs),
                InsertRowsJson table_ref_transcript
                  (map (\<lambda>t. transcript_row (last (split_char (CHR ''/'') (input_uri req)))
                            (hd (alternatives t)))
                     (speech_transcriptions rt))]
               @ (if is_GoogleCloudError e
                  then [Stdout (''Error inserting rows into BigQuery: '' @ str_error env e)]
                  else []),
            store := s2\<rparr>)"
    by (rule process_video_transcript_append_raises)
qed

theorem append_exception_caught_by_class_witness:
  "build_request sample_event = Inr sample_request
   \<and> annotate_video
        (sample_env (\<lambda>r. Inr [sample_label_results, sample_speech_results])
           (\<lambda>t. Some (GoogleCloudError ''Forbidden'')) (\<lambda>t. []))
        sample_request = Inr [sample_label_results, sample_speech_results]
   \<and> print_video_labels
        (sample_env (\<lambda>r. Inr [sample_label_results, sample_speech_results])
           (\<lambda>t. Some (GoogleCloudError ''Forbidden'')) (\<lambda>t. []))
        sample_label_results
        (snd (analyze_video
           (sample_env (\<lambda>r. Inr [sample_label_results, sample_speech_results])
              (\<lambda>t. Some (GoogleCloudError ''Forbidden'')) (\<lambda>t. []))
           sample_event empty_world)) =
       (Inr (), empty_world\<lparr>trace := take 8 sample_run_prefix\<rparr>)
   \<and> print_video_speech
        (sample_env (\<lambda>r. Inr [sample_label_results, sample_speech_results])
           (\<lambda>t. Some (GoogleCloudError ''Forbidden'')) (\<lambda>t. []))
        sample_speech_results default_min_confidence
        (empty_world\<lparr>trace := take 8 sample_run_prefix\<rparr>) =
       (Inr (), empty_world\<lparr>trace := take 10 sample_run_prefix\<rparr>)
   \<and> create_bigquery_tables
        (sample_env (\<lambda>r. Inr [sample_label_results, sample_speech_results])
           (\<lambda>t. Some (GoogleCloudError ''Forbidden'')) (\<lambda>t. []))
        (empty_world\<lparr>trace := take 10 sample_run_prefix\<rparr>) =
       (Inr (),
        empty_world\<lparr>trace := sample_run_prefix,
          store := {table_ref_labels, table_ref_transcript}\<rparr>)
   \<and> process_video
        (sample_env (\<lambda>r. Inr [sample_label_results, sample_speech_results])
           (\<lambda>t. Some (GoogleCloudError ''Forbidden'')) (\<lambda>t. []))
        sample_event empty_world =
       (Inr (),
        empty_world\<lparr>trace := sample_run_prefix @
            [BigqueryClient,
             InsertRowsJson table_ref_labels
               (label_rows ''clip.mp4'' ''gs://b/clip.mp4''
                  (segment_label_annotations sample_label_results) []),
             Stdout ''Error inserting rows into BigQuery: exception''],
          store := {table_ref_labels, table_ref_transcript}\<rparr>)
   \<and> process_video
        (sample_env (\<lambda>r. Inr [sample_label_results, sample_speech_results])
           (\<lambda>t. if t = table_ref_transcript then Some (GoogleCloudError ''Forbidden'')
                else None)
           (\<lambda>t. []))
        sample_event empty_world =
       (Inr (),
        empty_world\<lparr>trace := sample_run_prefix @
            [BigqueryClient,
             InsertRowsJson table_ref_labels
               (label_rows ''clip.mp4'' ''gs://b/clip.mp4''
                  (segment_label_annotations sample_label_results) []),
             Stdout ''New rows have been added to the 'labels' table.'',
             InsertRowsJson table_ref_transcript
               (map (\<lambda>t. transcript_row ''clip.mp4'' (hd (alternatives t)))
                  (speech_transcriptions sample_speech_results)),
             Stdout ''Error inserting rows into BigQuery: exception''],
          store := {table_ref_labels, table_ref_transcript}\<rparr>)"
proof -
  let ?E1 = "sample_env (\<lambda>r. Inr [sample_label_results, sample_speech_results])
               (\<lambda>t. Some (GoogleCloudError ''Forbidden'')) (\<lambda>t. [])"
  let ?E2 = "sample_env (\<lambda>r. Inr [sample_label_results, sample_speech_results])
               (\<lambda>t. if t = table_ref_transcript then Some (GoogleCloudError ''Forbidden'')
                    else None)
               (\<lambda>t. [])"
  let ?w4 = "empty_world\<lparr>trace := sample_run_prefix,
               store := {table_ref_labels, table_ref_transcript}\<rparr>"
  let ?lr = "label_rows (last (split_char (CHR ''/'') (input_uri sample_request)))
               (input_uri sample_request) (segment_label_annotations sample_label_results) []"
  let ?tr = "map (\<lambda>t. transcript_row (last (split_char (CHR ''/'') (input_uri sample_request)))
                     (hd (alternatives t)))
               (speech_transcriptions sample_speech_results)"
  note h1 = sample_build_request
  note h2 = sample_annotate_video [of "\<lambda>t. Some (GoogleCloudError ''Forbidden'')" "\<lambda>t. []"]
  note h3 = sample_labels_after_analysis
              [of "\<lambda>t. Some (GoogleCloudError ''Forbidden'')" "\<lambda>t. []"]
  note h4 = sample_print_video_speech
              [of "\<lambda>t. Some (GoogleCloudError ''Forbidden'')" "\<lambda>t. []"]
  note h5 = sample_create_bigquery_tables
              [of "\<lambda>t. Some (GoogleCloudError ''Forbidden'')" "\<lambda>t. []"]
  have i1: "insert_rows_json ?E1 table_ref_labels ?lr (store ?w4)
           = (Inl (GoogleCloudError ''Forbidden''), {table_ref_labels, table_ref_transcript})"
    by (simp add: sample_env_def store_insert_rows_json_def)
  have c1: "process_video ?E1 sample_event empty_world =
       (Inr (),
        empty_world\<lparr>trace := sample_run_prefix @
            [BigqueryClient,
             InsertRowsJson table_ref_labels
               (label_rows ''clip.mp4'' ''gs://b/clip.mp4''
                  (segment_label_annotations sample_label_results) []),
             Stdout ''Error inserting rows into BigQuery: exception''],
          store := {table_ref_labels, table_ref_transcript}\<rparr>)"
    unfolding append_exception_caught_by_class
      [OF h1 h2 h3 h4 h5, THEN conjunct1, THEN mp, OF i1]
    by (simp add: sample_file_name sample_env_def)
  have ne: "table_ref_labels \<noteq> table_ref_transcript"
    by (rule table_refs_distinct)
  have i2: "insert_rows_json ?E2 table_ref_labels ?lr (store ?w4)
              = (Inr [], {table_ref_labels, table_ref_transcript})
            \<and> insert_rows_json ?E2 table_ref_transcript ?tr
                {table_ref_labels, table_ref_transcript}
              = (Inl (GoogleCloudError ''Forbidden''), {table_ref_labels, table_ref_transcript})"
    using ne by (simp add: sample_env_def store_insert_rows_json_def)
  have c2: "process_video ?E2 sample_event empty_world =
       (Inr (),
        empty_world\<lparr>trace := sample_run_prefix @
            [BigqueryClient,
             InsertRowsJson table_ref_labels
               (label_rows ''clip.mp4'' ''gs://b/clip.mp4''
                  (segment_label_annotations sample_label_results) []),
             Stdout ''New rows have been added to the 'labels' table.'',
             InsertRowsJson table_ref_transcript
               (map (\<lambda>t. transcript_row ''clip.mp4'' (hd (alternatives t)))
                  (speech_transcriptions sample_speech_results)),
             Stdout ''Error inserting rows into BigQuery: exception''],
          store := {table_ref_labels, table_ref_transcript}\<rparr>)"
    unfolding append_exception_caught_by_class
      [OF sample_build_request sample_annotate_video sample_labels_after_analysis
          sample_print_video_speech sample_create_bigquery_tables,
       THEN conjunct2, THEN mp, OF i2]
    by (simp add: sample_file_name sample_env_def)
  show ?thesis
    by (intro conjI) (rule h1 h2 h3 h4 h5 c1 c2)+
qed

section \<open>The two appends share one \<open>try\<close> block\<close>

lemma insert_rows_attempts:
  "append_attempted table_ref_labels (trace (snd (insert_rows env lr tr w)))
   \<and> append_attempted table_ref_transcript (trace (snd (insert_rows env lr tr w))) =
       (case fst (insert_rows_json env table_ref_labels lr (store w)) of
          Inl e \<Rightarrow> append_attempted table_ref_transcript (trace w)
        | Inr errs \<Rightarrow> True)"
proof (cases "insert_rows_json env table_ref_labels lr (store w)")
  case (Pair r1 s1)
  show ?thesis
  proof (cases r1)
    case (Inl e)
    with Pair have l: "insert_rows_json env table_ref_labels lr (store w) = (Inl e, s1)"
      by simp
    show ?thesis
      using table_refs_distinct
      by (simp add: insert_rows_labels_raise [OF l] l append_attempted_append)
  next
    case (Inr errs)
    with Pair have l: "insert_rows_json env table_ref_labels lr (store w) = (Inr errs, s1)"
      by simp
    show ?thesis
    proof (cases "insert_rows_json env table_ref_transcript tr s1")
      case (Pair r2 s2)
      show ?thesis
      proof (cases r2)
        case (Inl e)
        with Pair have t: "insert_rows_json env table_ref_transcript tr s1 = (Inl e, s2)"
          by simp
        show ?thesis
          by (simp add: insert_rows_transcript_raise [OF l t] l append_attempted_append)
      next
        case (Inr errs2)
        with Pair have t: "insert_rows_json env table_ref_transcript tr s1 = (Inr errs2, s2)"
          by simp
        show ?thesis
          by (simp add: insert_rows_both_return [OF l t] l append_attempted_append)
      qed
    qed
  qed
qed

text \<open>
  C2, as stated, fails: when the append of the label rows raises a GoogleCloudError, the
  handler of the one \<open>try\<close> block logs it and the append of the transcript rows, which
  would have succeeded, is never attempted.
\<close>

theorem label_append_exception_blocks_transcript_append:
  "fst (insert_rows_json
          (sample_env (\<lambda>r. Inr [])
             (\<lambda>t. if t = table_ref_labels then Some (GoogleCloudError ''Forbidden'') else None)
             (\<lambda>t. []))
          table_ref_labels
          (label_rows ''clip.mp4'' ''gs://b/clip.mp4''
             (segment_label_annotations sample_label_results) [])
          (store empty_world))
     = Inl (GoogleCloudError ''Forbidden'')
   \<and> fst (insert_rows_json
          (sample_env (\<lambda>r. Inr [])
             (\<lambda>t. if t = table_ref_labels then Some (GoogleCloudError ''Forbidden'') else None)
             (\<lambda>t. []))
          table_ref_transcript
          (map (\<lambda>t. transcript_row ''clip.mp4'' (hd (alternatives t)))
             (speech_transcriptions sample_speech_results))
          (store empty_world))
     = Inr []
   \<and> store_results_in_bigquery
        (sample_env (\<lambda>r. Inr [])
           (\<lambda>t. if t = table_ref_labels then Some (GoogleCloudError ''Forbidden'') else None)
           (\<lambda>t. []))
        ''gs://b/clip.mp4'' [sample_label_results, sample_speech_results] empty_world
     = (Inr (),
        empty_world\<lparr>trace :=
          [BigqueryClient,
           InsertRowsJson table_ref_labels
             (label_rows ''clip.mp4'' ''gs://b/clip.mp4''
                (segment_label_annotations sample_label_results) []),
           Stdout ''Error inserting rows into BigQuery: exception'']\<rparr>)
   \<and> \<not> append_attempted table_ref_transcript
        (trace (snd (store_results_in_bigquery
           (sample_env (\<lambda>r. Inr [])
              (\<lambda>t. if t = table_ref_labels then Some (GoogleCloudError ''Forbidden'') else None)
              (\<lambda>t. []))
           ''gs://b/clip.mp4'' [sample_label_results, sample_speech_results] empty_world)))"
proof -
  let ?E = "sample_env (\<lambda>r. Inr [])
              (\<lambda>t. if t = table_ref_labels then Some (GoogleCloudError ''Forbidden'') else None)
              (\<lambda>t. [])"
  let ?uri = "''gs://b/clip.mp4''"
  let ?lr = "label_rows ''clip.mp4'' ?uri (segment_label_annotations sample_label_results) []"
  let ?tr = "map (\<lambda>t. transcript_row ''clip.mp4'' (hd (alternatives t)))
               (speech_transcriptions sample_speech_results)"
  let ?w1 = "empty_world\<lparr>trace := trace empty_world @ [BigqueryClient]\<rparr>"
  have e: "trace empty_world = []" "store empty_world = {}"
    by (simp_all add: empty_world_def)
  have fn: "last (split_char (CHR ''/'') ?uri) = ''clip.mp4''"
    by simp
  have h1: "\<forall>t\<in>set (speech_transcriptions sample_speech_results). alternatives t \<noteq> []"
    by (simp add: sample_speech_results_def)
  have h2: "bigquery_Client ?E = Inr ()"
    by (simp add: sample_env_def)
  have i: "insert_rows_json ?E table_ref_labels ?lr (store ?w1)
             = (Inl (GoogleCloudError ''Forbidden''), {})"
    by (simp add: sample_env_def store_insert_rows_json_def e)
  have c1: "fst (insert_rows_json ?E table_ref_labels ?lr (store empty_world))
              = Inl (GoogleCloudError ''Forbidden'')"
    by (simp add: sample_env_def store_insert_rows_json_def)
  have c2: "fst (insert_rows_json ?E table_ref_transcript ?tr (store empty_world)) = Inr []"
    using table_refs_distinct
    by (simp add: sample_env_def store_insert_rows_json_def)
  have s: "store_results_in_bigquery ?E ?uri [sample_label_results, sample_speech_results]
             empty_world = insert_rows ?E ?lr ?tr ?w1"
    by (simp only: store_results_rows [OF h2 h1] fn label_rows_append append_Nil)
  have c3: "store_results_in_bigquery ?E ?uri [sample_label_results, sample_speech_results]
             empty_world =
       (Inr (),
        empty_world\<lparr>trace :=
          [BigqueryClient, InsertRowsJson table_ref_labels ?lr,
           Stdout ''Error inserting rows into BigQuery: exception'']\<rparr>)"
    by (simp only: s insert_rows_labels_raise [OF i]) (simp add: e sample_env_def empty_world_def)
  have c4: "\<not> append_attempted table_ref_transcript
        (trace (snd (store_results_in_bigquery ?E ?uri
           [sample_label_results, sample_speech_results] empty_world)))"
    using table_refs_distinct by (simp only: c3) simp
  show ?thesis
    by (intro conjI) (rule c1 c2 c3 c4)+
qed

text \<open>
  C2, amended. The two appends are issued one after the other inside one \<open>try\<close> block.
  The append of the label rows is always attempted. When it returns, with or without row
  errors, its outcome is logged and the append of the transcript rows is attempted with
  its rows, and its outcome is logged when it returns; an exception of the second append
  comes after the first append has been made and logged. When the append of the label
  rows raises, the append of the transcript rows is not attempted: a GoogleCloudError is
  logged once and the call ends normally, any other exception is returned to the caller.
\<close>

theorem appends_in_one_try_block:
  "(insert_rows_json env table_ref_labels lr (store w) = (Inr errs, s1)
      \<and> insert_rows_json env table_ref_transcript tr s1 = (Inr errs2, s2) \<longrightarrow>
      insert_rows env lr tr w =
        (Inr (),
         w\<lparr>trace := trace w @
              [InsertRowsJson table_ref_labels lr,
               Stdout (if errs = [] then ''New rows have been added to the 'labels' table.''
                       else ''Encountered errors while inserting rows into 'labels' table: ''
                              @ repr_errors env errs),
               InsertRowsJson table_ref_transcript tr,
               Stdout (if errs2 = []
                       then ''New rows have been added to the 'transcript' table.''
                       else ''Encountered errors while inserting rows into 'transcript' table: ''
                              @ repr_errors env errs2)],
           store := s2\<rparr>))
   \<and> (insert_rows_json env table_ref_labels lr (store w) = (Inr errs, s1)
      \<and> insert_rows_json env table_ref_transcript tr s1 = (Inl e, s2) \<longrightarrow>
      insert_rows env lr tr w =
        (if is_GoogleCloudError e then Inr () else Inl e,
         w\<lparr>trace := trace w @
              [InsertRowsJson table_ref_labels lr,
               Stdout (if errs = [] then ''New rows have been added to the 'labels' table.''
                       else ''Encountered errors while inserting rows into 'labels' table: ''
                              @ repr_errors env errs),
               InsertRowsJson table_ref_transcript tr]
              @ (if is_GoogleCloudError e
                 then [Stdout (''Error inserting rows into BigQuery: '' @ str_error env e)]
                 else []),
           store := s2\<rparr>))
   \<and> (insert_rows_json env table_ref_labels lr (store w) = (Inl e, s1) \<longrightarrow>
      insert_rows env lr tr w =
        (if is_GoogleCloudError e then Inr () else Inl e,
         w\<lparr>trace := trace w @ InsertRowsJson table_ref_labels lr
                     # (if is_GoogleCloudError e
                        then [Stdout (''Error inserting rows into BigQuery: ''
                                        @ str_error env e)]
                        else []),
           store := s1\<rparr>))
   \<and> append_attempted table_ref_labels (trace (snd (insert_rows env lr tr w)))
   \<and> append_attempted table_ref_transcript (trace (snd (insert_rows env lr tr w))) =
       (case fst (insert_rows_json env table_ref_labels lr (store w)) of
          Inl e \<Rightarrow> append_attempted table_ref_transcript (trace w)
        | Inr errs \<Rightarrow> True)"
proof (intro conjI impI)
  assume "insert_rows_json env table_ref_labels lr (store w) = (Inr errs, s1)
      \<and> insert_rows_json env table_ref_transcript tr s1 = (Inr errs2, s2)"
  then show "insert_rows env lr tr w =
        (Inr (),
         w\<lparr>trace := trace w @
              [InsertRowsJson table_ref_labels lr,
               Stdout (if errs = [] then ''New rows have been added to the 'labels' table.''
                       else ''Encountered errors while inserting rows into 'labels' table: ''
                              @ repr_errors env errs),
               InsertRowsJson table_ref_transcript tr,
               Stdout (if errs2 = []
                       then ''New rows have been added to the 'transcript' table.''
                       else ''Encountered errors while inserting rows into 'transcript' table: ''
                              @ repr_errors env errs2)],
           store := s2\<rparr>)"
    by (elim conjE) (rule insert_rows_both_return)
next
  assume "insert_rows_json env table_ref_labels lr (store w) = (Inr errs, s1)
      \<and> insert_rows_json env table_ref_transcript tr s1 = (Inl e, s2)"
  then show "insert_rows env lr tr w =
        (if is_GoogleCloudError e then Inr () else Inl e,
         w\<lparr>trace := trace w @
              [InsertRowsJson table_ref_labels lr,
               Stdout (if errs = [] then ''New rows have been added to the 'labels' table.''
                       else ''Encountered errors while inserting rows into 'labels' table: ''
                              @ repr_errors env errs),
               InsertRowsJson table_ref_transcript tr]
              @ (if is_GoogleCloudError e
                 then [Stdout (''Error inserting rows into BigQuery: '' @ str_error env e)]
                 else []),
           store := s2\<rparr>)"
    by (elim conjE) (rule insert_rows_transcript_raise)
next
  assume "insert_rows_json env table_ref_labels lr (store w) = (Inl e, s1)"
  then show "insert_rows env lr tr w =
        (if is_GoogleCloudError e then Inr () else Inl e,
         w\<lparr>trace := trace w @ InsertRowsJson table_ref_labels lr
                     # (if is_GoogleCloudError e
                        then [Stdout (''Error inserting rows into BigQuery: ''
                                        @ str_error env e)]
                        else []),
           store := s1\<rparr>)"
    by (rule insert_rows_labels_raise)
next
  show "append_attempted table_ref_labels (trace (snd (insert_rows env lr tr w)))"
    using insert_rows_attempts [of env lr tr w] by (rule conjunct1)
next
  show "append_attempted table_ref_transcript (trace (snd (insert_rows env lr tr w))) =
       (case fst (insert_rows_json env table_ref_labels lr (store w)) of
          Inl e \<Rightarrow> append_attempted table_ref_transcript (trace w)
        | Inr errs \<Rightarrow> True)"
    using insert_rows_attempts [of env lr tr w] by (rule conjunct2)
qed

theorem appends_in_one_try_block_witness:
  "insert_rows
      (sample_env (\<lambda>r. Inr []) (\<lambda>t. None)
         (\<lambda>t. if t = table_ref_labels then [(1, ''invalid'')] else []))
      [[(''label'', JString ''cat'')], [(''label'', JString ''dog'')]]
      [[(''transcript'', JString ''hello'')]] empty_world =
     (Inr (),
      empty_world\<lparr>trace :=
          [InsertRowsJson table_ref_labels
             [[(''label'', JString ''cat'')], [(''label'', JString ''dog'')]],
           Stdout ''Encountered errors while inserting rows into 'labels' table: errors'',
           InsertRowsJson table_ref_transcript [[(''transcript'', JString ''hello'')]],
           Stdout ''New rows have been added to the 'transcript' table.''],
        store := {}\<rparr>)
   \<and> insert_rows
      (sample_env (\<lambda>r. Inr [])
         (\<lambda>t. if t = table_ref_transcript then Some (GoogleCloudError ''Forbidden'') else None)
         (\<lambda>t. []))
      [[(''label'', JString ''cat'')]] [[(''transcript'', JString ''hello'')]] empty_world =
     (Inr (),
      empty_world\<lparr>trace :=
          [InsertRowsJson table_ref_labels [[(''label'', JString ''cat'')]],
           Stdout ''New rows have been added to the 'labels' table.'',
           InsertRowsJson table_ref_transcript [[(''transcript'', JString ''hello'')]],
           Stdout ''Error inserting rows into BigQuery: exception''],
        store := {}\<rparr>)
   \<and> insert_rows
      (sample_env (\<lambda>r. Inr [])
         (\<lambda>t. if t = table_ref_labels then Some (OtherException ''timeout'') else None)
         (\<lambda>t. []))
      [[(''label'', JString ''cat'')]] [[(''transcript'', JString ''hello'')]] empty_world =
     (Inl (OtherException ''timeout''),
      empty_world\<lparr>trace :=
          [InsertRowsJson table_ref_labels [[(''label'', JString ''cat'')]]],
        store := {}\<rparr>)"
proof -
  let ?A = "sample_env (\<lambda>r. Inr []) (\<lambda>t. None)
              (\<lambda>t. if t = table_ref_labels then [(1, ''invalid'')] else [])"
  let ?B = "sample_env (\<lambda>r. Inr [])
              (\<lambda>t. if t = table_ref_transcript then Some (GoogleCloudError ''Forbidden'')
                   else None)
              (\<lambda>t. [])"
  let ?C = "sample_env (\<lambda>r. Inr [])
              (\<lambda>t. if t = table_ref_labels then Some (OtherException ''timeout'') else None)
              (\<lambda>t. [])"
  let ?lr2 = "[[(''label'', JString ''cat'')], [(''label'', JString ''dog'')]]"
  let ?lr = "[[(''label'', JString ''cat'')]]"
  let ?tr = "[[(''transcript'', JString ''hello'')]]"
  have e: "trace empty_world = []" "store empty_world = {}"
    by (simp_all add: empty_world_def)
  have ne: "table_ref_transcript \<noteq> table_ref_labels"
    using table_refs_distinct by simp
  have a: "insert_rows_json ?A table_ref_labels ?lr2 (store empty_world)
             = (Inr [(1, ''invalid'')], {})
           \<and> insert_rows_json ?A table_ref_transcript ?tr {} = (Inr [], {})"
    using ne by (simp add: sample_env_def store_insert_rows_json_def e)
  have c1: "insert_rows ?A ?lr2 ?tr empty_world =
     (Inr (),
      empty_world\<lparr>trace :=
          [InsertRowsJson table_ref_labels ?lr2,
           Stdout ''Encountered errors while inserting rows into 'labels' table: errors'',
           InsertRowsJson table_ref_transcript ?tr,
           Stdout ''New rows have been added to the 'transcript' table.''],
        store := {}\<rparr>)"
    using appends_in_one_try_block
      [where env = ?A and lr = ?lr2 and tr = ?tr and w = empty_world
         and errs = "[(1, ''invalid'')]" and ?s1.0 = "{}" and ?errs2.0 = "[]" and ?s2.0 = "{}",
       THEN conjunct1, THEN mp, OF a]
    by (simp add: e sample_env_def)
  have b: "insert_rows_json ?B table_ref_labels ?lr (store empty_world) = (Inr [], {})
           \<and> insert_rows_json ?B table_ref_transcript ?tr {}
             = (Inl (GoogleCloudError ''Forbidden''), {})"
    using table_refs_distinct by (simp add: sample_env_def store_insert_rows_json_def e)
  have c2: "insert_rows ?B ?lr ?tr empty_world =
     (Inr (),
      empty_world\<lparr>trace :=
          [InsertRowsJson table_ref_labels ?lr,
           Stdout ''New rows have been added to the 'labels' table.'',
           InsertRowsJson table_ref_transcript ?tr,
           Stdout ''Error inserting rows into BigQuery: exception''],
        store := {}\<rparr>)"
    using appends_in_one_try_block
      [where env = ?B and lr = ?lr and tr = ?tr and w = empty_world
         and errs = "[]" and ?s1.0 = "{}" and e = "GoogleCloudError ''Forbidden''"
         and ?s2.0 = "{}",
       THEN conjunct2, THEN conjunct1, THEN mp, OF b]
    by (simp add: e sample_env_def)
  have c: "insert_rows_json ?C table_ref_labels ?lr (store empty_world)
             = (Inl (OtherException ''timeout''), {})"
    by (simp add: sample_env_def store_insert_rows_json_def e)
  have c3: "insert_rows ?C ?lr ?tr empty_world =
     (Inl (OtherException ''timeout''),
      empty_world\<lparr>trace := [InsertRowsJson table_ref_labels ?lr], store := {}\<rparr>)"
    using appends_in_one_try_block
      [where env = ?C and lr = ?lr and tr = ?tr and w = empty_world
         and e = "OtherException ''timeout''" and ?s1.0 = "{}",
       THEN conjunct2, THEN conjunct2, THEN conjunct1, THEN mp, OF c]
    by (simp add: e)
  show ?thesis
    by (intro conjI) (rule c1 c2 c3)+
qed

end
